theory Spec2Isabelle
  imports Complex_Main
begin

section \<open>Mode configuration\<close>

text \<open>
  The repository holds four scripts, successive versions of one time-sync dispatcher:
  \<^verbatim>\<open>dispatcher.py\<close>, \<^verbatim>\<open>dispatchService.py\<close>, \<^verbatim>\<open>ToDo/driftMonitor.py\<close> and
  \<^verbatim>\<open>ToDo/driftMonitorDual.py\<close>. Definitions without a suffix embed
  \<^verbatim>\<open>driftMonitorDual.py\<close>; the suffixes \<open>_service\<close>, \<open>_dispatcher\<close> and \<open>_monitor\<close> mark the
  other three scripts.

  \<^verbatim>\<open>MODE\<close> is one of the three strings that the argument parser admits.

  \<^verbatim>\<open>driftMonitorDual.py\<close> as committed ends with a line that holds a Markdown fence
  (line 447), which Python rejects with a \<^verbatim>\<open>SyntaxError\<close> before it runs anything; the
  definitions embed its functions as they are written, lines 1-446.
\<close>

datatype mode = Fast | Ultrafast | Lazy

text \<open>
  \<^verbatim>\<open>driftMonitorDual.py\<close>, lines 48-56 (integers), and \<^verbatim>\<open>dispatchService.py\<close>,
  lines 37-45, where the same three values are written \<^verbatim>\<open>1e3\<close>, \<^verbatim>\<open>1e6\<close>, \<^verbatim>\<open>1e5\<close>.
\<close>

definition PRECISION_THRESHOLD_NS :: "mode \<Rightarrow> int" where
  "PRECISION_THRESHOLD_NS m =
     (if m = Ultrafast then 1000
      else if m = Lazy then 1000000
      else 100000)"

definition CHECK_INTERVAL :: "mode \<Rightarrow> nat" where
  "CHECK_INTERVAL m =
     (if m = Ultrafast then 1
      else if m = Lazy then 300
      else 60)"

text \<open>
  In \<^verbatim>\<open>dispatchService.py\<close> the thresholds and the skew are floats; the float literals
  \<^verbatim>\<open>1e3\<close>, \<^verbatim>\<open>1e5\<close>, \<^verbatim>\<open>1e6\<close> denote these numbers exactly, and a comparison of floats
  is the comparison of the numbers they denote.
\<close>

definition PRECISION_THRESHOLD_NS_service :: "mode \<Rightarrow> real" where
  "PRECISION_THRESHOLD_NS_service m =
     (if m = Ultrafast then 1000
      else if m = Lazy then 1000000
      else 100000)"

section \<open>Decision bands\<close>

datatype decision = NoAction | SmallAdjust | ForceStep

text \<open>
  The \<^verbatim>\<open>if\<close>/\<^verbatim>\<open>elif\<close>/\<^verbatim>\<open>else\<close> chain of \<^verbatim>\<open>drift_check_and_correct_windows\<close> and
  \<^verbatim>\<open>drift_check_and_correct_unix\<close> (\<^verbatim>\<open>driftMonitorDual.py\<close>, lines 274-282 and 317-332),
  with the threshold as an argument. The skew is a Python \<^verbatim>\<open>int\<close>. (The chain of the Windows
  function is written out but never reached, see \<open>drift_check_and_correct_windows\<close>.)
\<close>

definition classify :: "int \<Rightarrow> int \<Rightarrow> decision" where
  "classify threshold skew_ns =
     (let abs_skew = \<bar>skew_ns\<bar> in
      if threshold < abs_skew \<and> abs_skew < 1000000 then SmallAdjust
      else if 100000000 < abs_skew \<and> abs_skew < 1000000000 then ForceStep
      else NoAction)"

text \<open>
  \<^verbatim>\<open>dispatchService.py\<close>, lines 155-162 and 232-239: the same chain on floats
  (\<^verbatim>\<open>dispatcher.py\<close>, lines 151-158, has it with the fixed threshold \<^verbatim>\<open>1e3\<close>).
\<close>

definition classify_service :: "real \<Rightarrow> real \<Rightarrow> decision" where
  "classify_service threshold skew_ns =
     (if threshold < \<bar>skew_ns\<bar> \<and> \<bar>skew_ns\<bar> < 1000000 then SmallAdjust
      else if 100000000 < \<bar>skew_ns\<bar> \<and> \<bar>skew_ns\<bar> < 1000000000 then ForceStep
      else NoAction)"

text \<open>
  \<^verbatim>\<open>driftMonitor.py\<close>, lines 96-104: no threshold, no upper bound on the forced step.
\<close>

definition classify_monitor :: "int \<Rightarrow> decision" where
  "classify_monitor skew_ns =
     (if \<bar>skew_ns\<bar> < 1000000 then SmallAdjust
      else if \<bar>skew_ns\<bar> > 100000000 then ForceStep
      else NoAction)"

section \<open>History buffer\<close>

text \<open>
  \<^verbatim>\<open>skew_history\<close> is a \<^verbatim>\<open>collections.deque\<close> with \<^verbatim>\<open>maxlen=HISTORY_LEN\<close>, written only
  through \<^verbatim>\<open>append\<close>. A bounded deque appends on the right and, once longer than
  \<^verbatim>\<open>maxlen\<close>, drops one element on the left.
\<close>

definition HISTORY_LEN :: nat where
  "HISTORY_LEN = 80"

definition HISTORY_LEN_monitor :: nat where
  "HISTORY_LEN_monitor = 50"

definition deque_append :: "nat \<Rightarrow> 'a list \<Rightarrow> 'a \<Rightarrow> 'a list" where
  "deque_append maxlen dq x =
     (let dq' = dq @ [x] in if length dq' > maxlen then tl dq' else dq')"

text \<open>A run of pushes, oldest first.\<close>

fun pushes :: "nat \<Rightarrow> 'a list \<Rightarrow> 'a list \<Rightarrow> 'a list" where
  "pushes maxlen dq [] = dq"
| "pushes maxlen dq (x # xs) = pushes maxlen (deque_append maxlen dq x) xs"

section \<open>Python strings\<close>

text \<open>
  A string is a list of characters with codes below 256. The scripts use these methods of
  \<^verbatim>\<open>str\<close>; each definition follows the method's behaviour on such strings.
  \<^verbatim>\<open>str.isspace\<close> holds of the codes 9-13, 28-32, 133 and 160; \<^verbatim>\<open>str.splitlines\<close> breaks at
  the codes 10-13, 28-30 and 133, and takes a carriage return followed by a line feed as
  one break.
\<close>

definition is_space :: "char \<Rightarrow> bool" where
  "is_space c =
     (let n = (of_char c :: nat)
      in (9 \<le> n \<and> n \<le> 13) \<or> (28 \<le> n \<and> n \<le> 32) \<or> n = 133 \<or> n = 160)"

definition is_linebreak :: "char \<Rightarrow> bool" where
  "is_linebreak c =
     (let n = (of_char c :: nat)
      in (10 \<le> n \<and> n \<le> 13) \<or> (28 \<le> n \<and> n \<le> 30) \<or> n = 133)"

definition is_digit :: "char \<Rightarrow> bool" where
  "is_digit c = (48 \<le> (of_char c :: nat) \<and> (of_char c :: nat) \<le> 57)"

definition lstrip :: "string \<Rightarrow> string" where
  "lstrip s = dropWhile is_space s"

definition rstrip :: "string \<Rightarrow> string" where
  "rstrip s = rev (dropWhile is_space (rev s))"

definition strip :: "string \<Rightarrow> string" where
  "strip s = rstrip (lstrip s)"

text \<open>\<^verbatim>\<open>s.rstrip(chars)\<close>.\<close>

definition rstrip_chars :: "string \<Rightarrow> string \<Rightarrow> string" where
  "rstrip_chars chars s = rev (dropWhile (\<lambda>c. c \<in> set chars) (rev s))"

fun splitlines_from :: "string \<Rightarrow> string \<Rightarrow> string list" where
  "splitlines_from cur [] = (if cur = [] then [] else [cur])"
| "splitlines_from cur (c # cs) =
     (if c = CHR 0x0D \<and> cs \<noteq> [] \<and> hd cs = CHR 0x0A then cur # splitlines_from [] (tl cs)
      else if is_linebreak c then cur # splitlines_from [] cs
      else splitlines_from (cur @ [c]) cs)"

definition splitlines :: "string \<Rightarrow> string list" where
  "splitlines s = splitlines_from [] s"

text \<open>\<^verbatim>\<open>sub in s\<close>.\<close>

fun contains :: "string \<Rightarrow> string \<Rightarrow> bool" where
  "contains sub [] = (sub = [])"
| "contains sub (c # cs) = (take (length sub) (c # cs) = sub \<or> contains sub cs)"

text \<open>\<^verbatim>\<open>s.split(sep)\<close> and \<^verbatim>\<open>s.split(sep, 1)\<close> for a separator of one character.\<close>

fun split_from :: "char \<Rightarrow> string \<Rightarrow> string \<Rightarrow> string list" where
  "split_from sep cur [] = [cur]"
| "split_from sep cur (c # cs) =
     (if c = sep then cur # split_from sep [] cs else split_from sep (cur @ [c]) cs)"

definition split_all :: "char \<Rightarrow> string \<Rightarrow> string list" where
  "split_all sep s = split_from sep [] s"

definition split_once :: "char \<Rightarrow> string \<Rightarrow> string list" where
  "split_once sep s =
     (if sep \<in> set s then [takeWhile (\<lambda>c. c \<noteq> sep) s, tl (dropWhile (\<lambda>c. c \<noteq> sep) s)]
      else [s])"

text \<open>\<^verbatim>\<open>s.split()\<close>: the fields between runs of white space.\<close>

fun split_ws_from :: "string \<Rightarrow> string \<Rightarrow> string list" where
  "split_ws_from cur [] = (if cur = [] then [] else [cur])"
| "split_ws_from cur (c # cs) =
     (if is_space c then (if cur = [] then split_ws_from [] cs else cur # split_ws_from [] cs)
      else split_ws_from (cur @ [c]) cs)"

definition split_ws :: "string \<Rightarrow> string list" where
  "split_ws s = split_ws_from [] s"

text \<open>\<^verbatim>\<open>s.replace(old, new)\<close> for \<^verbatim>\<open>old\<close> of one character, and \<^verbatim>\<open>s.startswith(pre)\<close>.\<close>

definition replace_char :: "char \<Rightarrow> string \<Rightarrow> string \<Rightarrow> string" where
  "replace_char old new s = concat (map (\<lambda>c. if c = old then new else [c]) s)"

definition startswith :: "string \<Rightarrow> string \<Rightarrow> bool" where
  "startswith s pre = (take (length pre) s = pre)"

text \<open>
  \<^verbatim>\<open>re.search(r"([-+]?\d+\.\d+)\s*s", line)\<close> of \<^verbatim>\<open>measure_skew_windows_status\<close>: group 1 of
  the leftmost match. The classes of digits, white space, the point and \<^verbatim>\<open>s\<close> are
  disjoint, so the greedy match at a position is the only one there.
\<close>

definition match_offset_at :: "string \<Rightarrow> string option" where
  "match_offset_at s =
     (let sg = (if s \<noteq> [] \<and> (hd s = CHR ''-'' \<or> hd s = CHR ''+'') then [hd s] else []);
          s1 = drop (length sg) s;
          d1 = takeWhile is_digit s1;
          r1 = dropWhile is_digit s1
      in if d1 = [] \<or> r1 = [] \<or> hd r1 \<noteq> CHR ''.'' then None
         else (let d2 = takeWhile is_digit (tl r1);
                   r2 = dropWhile is_space (dropWhile is_digit (tl r1))
               in if d2 = [] \<or> r2 = [] \<or> hd r2 \<noteq> CHR ''s'' then None
                  else Some (sg @ d1 @ ''.'' @ d2)))"

fun search_offset :: "string \<Rightarrow> string option" where
  "search_offset [] = None"
| "search_offset (c # cs) =
     (case match_offset_at (c # cs) of Some g \<Rightarrow> Some g | None \<Rightarrow> search_offset cs)"

section \<open>Exceptions, dictionaries and JSON\<close>

datatype py_exn =
  ValueError | OverflowError | IndexError | OSError | JSONDecodeError | UnboundLocalError

text \<open>The class name stands for the text of an exception in a log line.\<close>

definition exn_text :: "py_exn \<Rightarrow> string" where
  "exn_text e =
     (case e of ValueError \<Rightarrow> ''ValueError'' | OverflowError \<Rightarrow> ''OverflowError''
      | IndexError \<Rightarrow> ''IndexError'' | OSError \<Rightarrow> ''OSError''
      | JSONDecodeError \<Rightarrow> ''JSONDecodeError''
      | UnboundLocalError \<Rightarrow> ''UnboundLocalError'')"

text \<open>
  What a call does: it returns a value, raises, or never returns (a command run without a
  timeout that does not finish).
\<close>

datatype 'a outcome = Returned 'a | Raised py_exn | Hung

text \<open>
  The memo is a \<^verbatim>\<open>dict\<close> with string keys and numbers as values, in insertion order. A
  number read from JSON is an \<^verbatim>\<open>int\<close>, or a \<^verbatim>\<open>float\<close> that the model keeps as its literal
  (the double it denotes is not computed).
\<close>

datatype num = PyInt int | PyFloat string

type_synonym dict = "(string \<times> num) list"

text \<open>\<^verbatim>\<open>d.get(k, dflt)\<close> and \<^verbatim>\<open>d[k] = v\<close>.\<close>

definition dict_get :: "dict \<Rightarrow> string \<Rightarrow> num \<Rightarrow> num" where
  "dict_get d k dflt = (case map_of d k of None \<Rightarrow> dflt | Some v \<Rightarrow> v)"

fun dict_set :: "dict \<Rightarrow> string \<Rightarrow> num \<Rightarrow> dict" where
  "dict_set [] k v = [(k, v)]"
| "dict_set ((k', v') # d) k v = (if k' = k then (k, v) # d else (k', v') # dict_set d k v)"

text \<open>\<^verbatim>\<open>str(i)\<close> of an \<^verbatim>\<open>int\<close>: its decimal digits, with a minus sign when negative.\<close>

definition digit_char :: "nat \<Rightarrow> char" where
  "digit_char d = char_of (48 + d)"

definition digit_val :: "char \<Rightarrow> nat" where
  "digit_val c = of_char c - 48"

fun digits_of :: "nat \<Rightarrow> string" where
  "digits_of n = (if n < 10 then [digit_char n] else digits_of (n div 10) @ [digit_char (n mod 10)])"

declare digits_of.simps [simp del]

definition str_int :: "int \<Rightarrow> string" where
  "str_int i = (if i < 0 then CHR ''-'' # digits_of (nat (- i)) else digits_of (nat i))"

definition nat_of_digits :: "string \<Rightarrow> nat" where
  "nat_of_digits ds = foldl (\<lambda>a c. 10 * a + digit_val c) 0 ds"

definition str_num :: "num \<Rightarrow> string" where
  "str_num v = (case v of PyInt i \<Rightarrow> str_int i | PyFloat s \<Rightarrow> s)"

text \<open>
  \<^verbatim>\<open>json.dump(d, f)\<close> with the default separators writes
  \<^verbatim>\<open>{"k1": v1, "k2": v2}\<close>. A key of printable ASCII characters other than the double quote
  and the backslash is written between quotes as it is; the model has no other keys. An
  \<^verbatim>\<open>int\<close> is written as \<^verbatim>\<open>str\<close> gives it, a float as the literal it was read from: Python
  writes the \<^verbatim>\<open>repr\<close> of the double, which is that literal when \<^verbatim>\<open>json.dump\<close> wrote the file
  and can be another one otherwise.
\<close>

definition key_char :: "char \<Rightarrow> bool" where
  "key_char c =
     (32 \<le> (of_char c :: nat) \<and> (of_char c :: nat) \<le> 126 \<and> c \<noteq> CHR 0x22 \<and> c \<noteq> CHR 0x5C)"

definition dumps_member :: "string \<times> num \<Rightarrow> string" where
  "dumps_member kv = [CHR 0x22] @ fst kv @ [CHR 0x22] @ '': '' @ str_num (snd kv)"

fun join :: "string \<Rightarrow> string list \<Rightarrow> string" where
  "join sep [] = []"
| "join sep [x] = x"
| "join sep (x # y # zs) = x @ sep @ join sep (y # zs)"

definition json_dumps :: "dict \<Rightarrow> string" where
  "json_dumps d = ''{'' @ join '', '' (map dumps_member d) @ ''}''"

text \<open>
  \<^verbatim>\<open>json.load\<close> on the fragment of JSON that the scripts write: an object whose members are
  numbers. White space is skipped where JSON allows it; a number follows the grammar
  \<^verbatim>\<open>-?(0|[1-9]\d*)(\.\d+)?([eE][-+]?\d+)?\<close> and is an \<^verbatim>\<open>int\<close> when it has neither fraction nor
  exponent; a repeated key keeps its first position and its last value. Every other text
  is answered with \<^verbatim>\<open>JSONDecodeError\<close>; that is what Python does with a text that is not
  JSON, while a JSON text outside the fragment (an array, a nested object, a string
  value, an escaped key) is outside the model.
\<close>

definition json_ws :: "char \<Rightarrow> bool" where
  "json_ws c = (c = CHR '' '' \<or> c = CHR 0x09 \<or> c = CHR 0x0A \<or> c = CHR 0x0D)"

definition skip_ws :: "string \<Rightarrow> string" where
  "skip_ws s = dropWhile json_ws s"

definition scan_int :: "string \<Rightarrow> (string \<times> string) option" where
  "scan_int s =
     (case s of
        [] \<Rightarrow> None
      | c # t \<Rightarrow>
          if c = CHR ''0'' then Some (''0'', t)
          else if is_digit c then Some (takeWhile is_digit s, dropWhile is_digit s)
          else None)"

definition scan_frac :: "string \<Rightarrow> string \<times> string" where
  "scan_frac s =
     (case s of
        c # d # t \<Rightarrow>
          if c = CHR ''.'' \<and> is_digit d
          then (c # takeWhile is_digit (d # t), dropWhile is_digit (d # t))
          else ([], s)
      | _ \<Rightarrow> ([], s))"

definition scan_exp :: "string \<Rightarrow> string \<times> string" where
  "scan_exp s =
     (case s of
        [] \<Rightarrow> ([], s)
      | c # t \<Rightarrow>
          if c = CHR ''e'' \<or> c = CHR ''E'' then
            (let sg = (if t \<noteq> [] \<and> (hd t = CHR ''+'' \<or> hd t = CHR ''-'') then [hd t] else []);
                 u = drop (length sg) t
             in if u \<noteq> [] \<and> is_digit (hd u)
                then (c # sg @ takeWhile is_digit u, dropWhile is_digit u)
                else ([], s))
          else ([], s))"

definition scan_number :: "string \<Rightarrow> (num \<times> string) option" where
  "scan_number s =
     (let sg = (if s \<noteq> [] \<and> hd s = CHR ''-'' then ''-'' else []);
          s1 = drop (length sg) s
      in case scan_int s1 of
           None \<Rightarrow> None
         | Some (ip, r1) \<Rightarrow>
             (let (frac, r2) = scan_frac r1;
                  (ex, r3) = scan_exp r2
              in if frac = [] \<and> ex = []
                 then Some (PyInt (if sg = [] then int (nat_of_digits ip)
                                   else - int (nat_of_digits ip)), r3)
                 else Some (PyFloat (sg @ ip @ frac @ ex), r3)))"

lemma scan_frac_length: "length (snd (scan_frac s)) \<le> length s"
  by (auto simp: scan_frac_def split: list.splits intro: le_trans [OF length_dropWhile_le])

lemma scan_exp_length: "length (snd (scan_exp s)) \<le> length s"
  by (auto simp: scan_exp_def Let_def split: list.splits
      intro!: le_trans [OF length_dropWhile_le] le_SucI)

lemma scan_int_length: "scan_int s = Some (ip, r) \<Longrightarrow> length r \<le> length s"
  by (auto simp: scan_int_def split: list.splits if_splits
      intro: le_trans [OF length_dropWhile_le])

lemma scan_number_length:
  assumes "scan_number s = Some (v, r)"
  shows "length r \<le> length s"
proof -
  obtain sg where sg: "sg = (if s \<noteq> [] \<and> hd s = CHR ''-'' then ''-'' else [])" by simp
  from assms obtain ip r1 where i: "scan_int (drop (length sg) s) = Some (ip, r1)"
    and r: "r = snd (scan_exp (snd (scan_frac r1)))"
    by (auto simp: scan_number_def Let_def sg split: option.splits prod.splits if_splits)
  have "length r \<le> length (snd (scan_frac r1))"
    unfolding r by (rule scan_exp_length)
  also have "\<dots> \<le> length r1" by (rule scan_frac_length)
  also have "\<dots> \<le> length (drop (length sg) s)" using i by (rule scan_int_length)
  also have "\<dots> \<le> length s" by simp
  finally show ?thesis .
qed

text \<open>
  The members of an object, from just after the opening quote of a key to just after the
  closing brace.
\<close>

function parse_members :: "dict \<Rightarrow> string \<Rightarrow> (dict \<times> string) option" where
  "parse_members acc s =
     (let key = takeWhile (\<lambda>c. c \<noteq> CHR 0x22) s;
          rest = dropWhile (\<lambda>c. c \<noteq> CHR 0x22) s
      in if rest = [] \<or> \<not> list_all key_char key then None
         else (case skip_ws (tl rest) of
                 [] \<Rightarrow> None
               | c # r2 \<Rightarrow>
                   if c \<noteq> CHR '':'' then None
                   else (case scan_number (skip_ws r2) of
                           None \<Rightarrow> None
                         | Some (v, r3) \<Rightarrow>
                             (case skip_ws r3 of
                                [] \<Rightarrow> None
                              | d # r5 \<Rightarrow>
                                  if d = CHR ''}'' then Some (dict_set acc key v, r5)
                                  else if d = CHR '','' then
                                    (case skip_ws r5 of
                                       [] \<Rightarrow> None
                                     | q # r6 \<Rightarrow>
                                         if q = CHR 0x22
                                         then parse_members (dict_set acc key v) r6
                                         else None)
                                  else None))))"
  by pat_completeness auto
termination
proof (relation "measure (\<lambda>(acc, s). length s)", goal_cases)
  case 1
  show ?case by simp
next
  case (2 acc s key rest c r2 v3 v r3 d r5 q r6)
  have ws: "length (skip_ws t) \<le> length t" for t
    by (simp add: skip_ws_def length_dropWhile_le)
  have "length r6 < length (skip_ws r5)" using 2 by simp
  also have "\<dots> \<le> length r5" by (rule ws)
  also have "length r5 < length (skip_ws r3)" using 2 by simp
  also have "\<dots> \<le> length r3" by (rule ws)
  also have "\<dots> \<le> length (skip_ws r2)"
    using 2 by (intro scan_number_length [of _ v]) simp
  also have "\<dots> \<le> length r2" by (rule ws)
  also have "length r2 < length (skip_ws (tl rest))" using 2 by simp
  also have "\<dots> \<le> length (tl rest)" by (rule ws)
  also have "\<dots> \<le> length rest" by simp
  also have "\<dots> \<le> length s" using 2 by (simp add: length_dropWhile_le)
  finally show ?case by simp
qed

declare parse_members.simps [simp del]

definition json_loads :: "string \<Rightarrow> py_exn + dict" where
  "json_loads s =
     (case skip_ws s of
        [] \<Rightarrow> Inl JSONDecodeError
      | c # r \<Rightarrow>
          if c \<noteq> CHR ''{'' then Inl JSONDecodeError
          else (case skip_ws r of
                  [] \<Rightarrow> Inl JSONDecodeError
                | q # r2 \<Rightarrow>
                    (let res = (if q = CHR ''}'' then Some ([], r2)
                                else if q = CHR 0x22 then parse_members [] r2
                                else None)
                     in case res of
                          None \<Rightarrow> Inl JSONDecodeError
                        | Some (d, r3) \<Rightarrow>
                            if skip_ws r3 = [] then Inr d else Inl JSONDecodeError)))"

section \<open>Files and the memo store\<close>

text \<open>
  The configuration fixed when a script starts: the mode and the platform
  (\<^verbatim>\<open>platform.system() == "Windows"\<close>).
\<close>

record config =
  MODE :: mode
  IS_WINDOWS :: bool

definition LOG_DIR :: "config \<Rightarrow> string" where
  "LOG_DIR cfg =
     (if IS_WINDOWS cfg then ''C:'' @ [CHR 0x5C] @ ''ProgramData'' @ [CHR 0x5C] @ ''TimeSync''
      else ''/var/log/time-sync'')"

definition MEMO_FILE :: "config \<Rightarrow> string" where
  "MEMO_FILE cfg =
     LOG_DIR cfg @ (if IS_WINDOWS cfg then [CHR 0x5C] else ''/'') @ ''memo.json''"

text \<open>
  The part of the file system that holds the memo: the text of each file, whether the
  memo can be opened for reading, and whether files can be created, written and renamed
  in its directory.
\<close>

record filesystem =
  files :: "string \<Rightarrow> string option"
  readable :: bool
  writable :: bool

text \<open>
  The steps in which a write reaches the file system: opening for writing empties the
  file, the text arrives piece by piece, and \<^verbatim>\<open>os.replace\<close> renames in one step. A
  process that is stopped has run a prefix of its steps.
\<close>

datatype fs_op = Truncate string | Write string string | Replace string string

fun apply_op :: "(string \<Rightarrow> string option) \<Rightarrow> fs_op \<Rightarrow> (string \<Rightarrow> string option)" where
  "apply_op f (Truncate p) = f(p \<mapsto> [])"
| "apply_op f (Write p text) = f(p \<mapsto> (case f p of None \<Rightarrow> [] | Some old \<Rightarrow> old) @ text)"
| "apply_op f (Replace src dst) =
     (case f src of None \<Rightarrow> f | Some text \<Rightarrow> (f(dst \<mapsto> text))(src := None))"

definition run_ops :: "fs_op list \<Rightarrow> (string \<Rightarrow> string option) \<Rightarrow> (string \<Rightarrow> string option)" where
  "run_ops ops f = foldl apply_op f ops"

text \<open>\<^verbatim>\<open>with open(path, "w") as f: f.write(text)\<close>, one character at a time.\<close>

definition write_ops :: "string \<Rightarrow> string \<Rightarrow> fs_op list" where
  "write_ops path text = Truncate path # map (\<lambda>c. Write path [c]) text"

text \<open>The body of the \<^verbatim>\<open>try\<close> in \<^verbatim>\<open>save_memo\<close> (\<^verbatim>\<open>driftMonitorDual.py\<close>, lines 127-130).\<close>

definition save_memo_ops :: "config \<Rightarrow> dict \<Rightarrow> fs_op list" where
  "save_memo_ops cfg d =
     (let tmp = MEMO_FILE cfg @ ''.tmp''
      in write_ops tmp (json_dumps d) @ [Replace tmp (MEMO_FILE cfg)])"

text \<open>
  The state of a running script: the module-level \<^verbatim>\<open>memo\<close> and \<^verbatim>\<open>skew_history\<close>, the file
  system, the lines that \<^verbatim>\<open>log\<close> has written (without the time stamp that \<^verbatim>\<open>log\<close> puts in
  front), and the commands passed to \<^verbatim>\<open>run_cmd\<close>, in order.

  \<^verbatim>\<open>log\<close> (lines 78-82) prints the line and appends it to \<^verbatim>\<open>status.log\<close>; printing and opening
  the file can raise. \<open>log_line\<close> is a call of \<^verbatim>\<open>log\<close> that returns. The definitions of
  this file take every call of \<^verbatim>\<open>log\<close> to return, except \<open>log_full\<close>, \<open>run_cmd_full\<close>
  and the probes named \<open>_full\<close>, which say what happens when it raises.
\<close>

record state =
  memo :: dict
  fs :: filesystem
  skew_history :: "int list"
  logs :: "string list"
  cmds :: "string list"

definition log_line :: "string \<Rightarrow> state \<Rightarrow> state" where
  "log_line msg st = st\<lparr>logs := logs st @ [msg]\<rparr>"

text \<open>
  \<^verbatim>\<open>load_memo\<close> (\<^verbatim>\<open>driftMonitorDual.py\<close>, lines 114-122): the dictionary and the lines it
  logs.
\<close>

definition load_memo :: "config \<Rightarrow> filesystem \<Rightarrow> dict \<times> string list" where
  "load_memo cfg f =
     (case files f (MEMO_FILE cfg) of
        None \<Rightarrow> ([], [])
      | Some text \<Rightarrow>
          if \<not> readable f then ([], [''[WARN] Could not load memo: '' @ exn_text OSError])
          else (case json_loads text of
                  Inl e \<Rightarrow> ([], [''[WARN] Could not load memo: '' @ exn_text e])
                | Inr d \<Rightarrow> (d, [])))"

text \<open>\<^verbatim>\<open>save_memo\<close> (\<^verbatim>\<open>driftMonitorDual.py\<close>, lines 124-132).\<close>

definition save_memo :: "config \<Rightarrow> dict \<Rightarrow> state \<Rightarrow> state" where
  "save_memo cfg d st =
     (if \<not> writable (fs st) then log_line (''[WARN] Could not save memo: '' @ exn_text OSError) st
      else st\<lparr>fs := (fs st)\<lparr>files := run_ops (save_memo_ops cfg d) (files (fs st))\<rparr>\<rparr>)"

text \<open>
  \<^verbatim>\<open>load_memo\<close> and \<^verbatim>\<open>save_memo\<close> of \<^verbatim>\<open>driftMonitor.py\<close> (lines 45-55): the bare
  \<^verbatim>\<open>except\<close> covers \<^verbatim>\<open>open\<close> and \<^verbatim>\<open>json.load\<close>; the save writes the memo file in place and has
  no handler.
\<close>

definition load_memo_monitor :: "config \<Rightarrow> filesystem \<Rightarrow> dict" where
  "load_memo_monitor cfg f =
     (case files f (MEMO_FILE cfg) of
        None \<Rightarrow> []
      | Some text \<Rightarrow>
          if \<not> readable f then []
          else (case json_loads text of Inl e \<Rightarrow> [] | Inr d \<Rightarrow> d))"

definition save_memo_monitor :: "config \<Rightarrow> dict \<Rightarrow> filesystem \<Rightarrow> py_exn + filesystem" where
  "save_memo_monitor cfg d f =
     (if \<not> writable f then Inl OSError
      else Inr (f\<lparr>files := run_ops (write_ops (MEMO_FILE cfg) (json_dumps d)) (files f)\<rparr>))"

text \<open>
  The memo of \<^verbatim>\<open>dispatcher.py\<close> (lines 143-147 and 161-162) and of \<^verbatim>\<open>dispatchService.py\<close>
  (lines 147-151 and 164-165), inside \<^verbatim>\<open>drift_correction_windows\<close>: the last skew is read
  with no handler around \<^verbatim>\<open>open\<close> and \<^verbatim>\<open>json.load\<close>, and the new memo, whose text is
  \<^verbatim>\<open>text\<close>, is written in place.
\<close>

definition load_last_skew_dispatcher :: "config \<Rightarrow> filesystem \<Rightarrow> py_exn + num" where
  "load_last_skew_dispatcher cfg f =
     (case files f (MEMO_FILE cfg) of
        None \<Rightarrow> Inr (PyInt 0)
      | Some text \<Rightarrow>
          if \<not> readable f then Inl OSError
          else (case json_loads text of
                  Inl e \<Rightarrow> Inl e
                | Inr data \<Rightarrow> Inr (dict_get data ''last_skew_ns'' (PyInt 0))))"

definition write_memo_dispatcher :: "config \<Rightarrow> string \<Rightarrow> filesystem \<Rightarrow> py_exn + filesystem" where
  "write_memo_dispatcher cfg text f =
     (if \<not> writable f then Inl OSError
      else Inr (f\<lparr>files := run_ops (write_ops (MEMO_FILE cfg) text) (files f)\<rparr>))"

section \<open>Commands and probes\<close>

text \<open>
  What the subprocess of a command does: it finishes with its decoded standard output and
  standard error, it is still running when the timeout expires (without a timeout: it
  never ends), or starting it or talking to it raises an exception with some text. The environment of one cycle answers each
  command, given the timeout, and tells which tools \<^verbatim>\<open>shutil.which\<close> finds.
\<close>

datatype proc_outcome = Completed string string | TimedOut | Failed string

record env =
  proc :: "string \<Rightarrow> int option \<Rightarrow> proc_outcome"
  which :: "string \<Rightarrow> bool"

text \<open>
  \<^verbatim>\<open>run_cmd\<close> (\<^verbatim>\<open>driftMonitorDual.py\<close>, lines 87-109), called with a number as the timeout,
  as every call in the script is (15 is the default), and with \<^verbatim>\<open>log\<close> returning. The other
  outcomes, for \<^verbatim>\<open>timeout=None\<close> and for a \<^verbatim>\<open>log\<close> that raises, are those of \<open>run_cmd_full\<close>
  below.
\<close>

definition run_cmd :: "env \<Rightarrow> string \<Rightarrow> int \<Rightarrow> state \<Rightarrow> string \<times> state" where
  "run_cmd e cmd timeout st =
     (let st1 = st\<lparr>cmds := cmds st @ [cmd]\<rparr>
      in case proc e cmd (Some timeout) of
           Completed out err \<Rightarrow>
             (let out_s = strip out; err_s = strip err
              in (out_s, if err_s \<noteq> [] then log_line (''[CMD-ERR] '' @ cmd @ '' => '' @ err_s) st1
                         else st1))
         | TimedOut \<Rightarrow> ([], log_line (''[CMD-ERR] Timeout running: '' @ cmd) st1)
         | Failed msg \<Rightarrow>
             ([], log_line (''[CMD-ERR] Exception running: '' @ cmd @ '' => '' @ msg) st1))"

text \<open>
  The probes turn a text into nanoseconds with \<^verbatim>\<open>int(float(text) * 1e9)\<close>. Floating-point
  arithmetic is not modelled: the conversion is the parameter \<open>conv\<close>, which gives the
  integer or the exception that \<^verbatim>\<open>float\<close> or \<^verbatim>\<open>int\<close> raises.

  \<^verbatim>\<open>measure_skew_windows_stripchart\<close> (lines 139-162). \<open>stripchart_secs_text\<close> is the text
  that reaches \<^verbatim>\<open>float\<close>: of the last line with a comma, what follows the first comma,
  less white space and a trailing \<^verbatim>\<open>s\<close>.
\<close>

definition stripchart_secs_text :: "string \<Rightarrow> string option" where
  "stripchart_secs_text out =
     (let lines = map strip (filter (\<lambda>l. CHR '','' \<in> set l) (splitlines out))
      in if lines = [] then None
         else (case split_once CHR '','' (last lines) of
                 [a, b] \<Rightarrow> Some (strip (rstrip_chars ''s'' (strip b)))
               | _ \<Rightarrow> None))"

definition measure_skew_windows_stripchart ::
  "(string \<Rightarrow> py_exn + int) \<Rightarrow> env \<Rightarrow> state \<Rightarrow> int option \<times> state" where
  "measure_skew_windows_stripchart conv e st =
     (let (out, st1) =
            run_cmd e ''w32tm /stripchart /computer:time.windows.com /dataonly /samples:1''
              10 st
      in if out = [] then (None, st1)
         else (case stripchart_secs_text out of
                 None \<Rightarrow> (None, st1)
               | Some secs_text \<Rightarrow>
                   (case conv secs_text of Inl x \<Rightarrow> (None, st1) | Inr skew_ns \<Rightarrow> (Some skew_ns, st1))))"

text \<open>
  \<^verbatim>\<open>measure_skew_windows_status\<close> (lines 164-183): only \<^verbatim>\<open>ValueError\<close> is handled, any other
  exception of the conversion leaves the function.
\<close>

fun status_scan :: "(string \<Rightarrow> py_exn + int) \<Rightarrow> string list \<Rightarrow> py_exn + int option" where
  "status_scan conv [] = Inr None"
| "status_scan conv (line # ls) =
     (if contains ''Offset'' line \<or> contains ''Local Clock'' line then
        (case search_offset line of
           None \<Rightarrow> status_scan conv ls
         | Some g \<Rightarrow>
             (case conv g of
                Inr skew_ns \<Rightarrow> Inr (Some skew_ns)
              | Inl x \<Rightarrow> if x = ValueError then status_scan conv ls else Inl x))
      else status_scan conv ls)"

definition measure_skew_windows_status ::
  "(string \<Rightarrow> py_exn + int) \<Rightarrow> env \<Rightarrow> state \<Rightarrow> (py_exn + int option) \<times> state" where
  "measure_skew_windows_status conv e st =
     (let (out, st1) = run_cmd e ''w32tm /query /status'' 6 st
      in if out = [] then (Inr None, st1) else (status_scan conv (splitlines out), st1))"

text \<open>\<^verbatim>\<open>measure_skew_windows\<close> (lines 185-190).\<close>

definition measure_skew_windows ::
  "(string \<Rightarrow> py_exn + int) \<Rightarrow> env \<Rightarrow> state \<Rightarrow> (py_exn + int option) \<times> state" where
  "measure_skew_windows conv e st =
     (case measure_skew_windows_stripchart conv e st of
        (Some ns, st1) \<Rightarrow> (Inr (Some ns), st1)
      | (None, st1) \<Rightarrow> measure_skew_windows_status conv e st1)"

text \<open>
  \<^verbatim>\<open>measure_skew_chrony\<close> (lines 192-210). \<open>chrony_value\<close> is the text that reaches
  \<^verbatim>\<open>float\<close> for a line: the first field after the first colon. The loop returns at the
  first line that contains \<^verbatim>\<open>Last offset\<close>.
\<close>

definition chrony_value :: "string \<Rightarrow> string option" where
  "chrony_value line =
     (case split_once CHR '':'' line of
        [a, b] \<Rightarrow> (case split_ws (strip b) of [] \<Rightarrow> None | v # vs \<Rightarrow> Some v)
      | _ \<Rightarrow> None)"

fun chrony_scan :: "(string \<Rightarrow> py_exn + int) \<Rightarrow> string list \<Rightarrow> int option" where
  "chrony_scan conv [] = None"
| "chrony_scan conv (line # ls) =
     (if contains ''Last offset'' line then
        (case chrony_value line of
           None \<Rightarrow> None
         | Some v \<Rightarrow> (case conv v of Inl x \<Rightarrow> None | Inr skew_ns \<Rightarrow> Some skew_ns))
      else chrony_scan conv ls)"

definition measure_skew_chrony ::
  "(string \<Rightarrow> py_exn + int) \<Rightarrow> env \<Rightarrow> state \<Rightarrow> int option \<times> state" where
  "measure_skew_chrony conv e st =
     (let (out, st1) = run_cmd e ''chronyc tracking'' 6 st
      in if out = [] then (None, st1) else (chrony_scan conv (splitlines out), st1))"

text \<open>\<^verbatim>\<open>measure_skew_ntpd\<close> (lines 212-228).\<close>

fun ntpd_scan :: "(string \<Rightarrow> py_exn + int) \<Rightarrow> string list \<Rightarrow> int option" where
  "ntpd_scan conv [] = None"
| "ntpd_scan conv (token # ts) =
     (if startswith token ''offset='' then
        (case split_once CHR ''='' token of
           [a, b] \<Rightarrow> (case conv b of Inl x \<Rightarrow> None | Inr skew_ns \<Rightarrow> Some skew_ns)
         | _ \<Rightarrow> None)
      else ntpd_scan conv ts)"

definition measure_skew_ntpd ::
  "(string \<Rightarrow> py_exn + int) \<Rightarrow> env \<Rightarrow> state \<Rightarrow> int option \<times> state" where
  "measure_skew_ntpd conv e st =
     (let (out, st1) = run_cmd e ''ntpq -c rv'' 6 st
      in if out = [] then (None, st1)
         else (ntpd_scan conv (split_ws (replace_char CHR '','' '' '' out)), st1))"

section \<open>Commands and probes when log raises\<close>

text \<open>
  \<^verbatim>\<open>log\<close> (lines 78-82) calls \<^verbatim>\<open>print\<close> and \<^verbatim>\<open>write_status_log\<close>, which calls \<^verbatim>\<open>os.makedirs\<close>
  and opens \<^verbatim>\<open>status.log\<close> for appending; none of it is guarded. \<open>lg line\<close> is the
  exception that the call of \<^verbatim>\<open>log\<close> with that line raises, if it raises one; the line is
  then not in the log. The exceptions are of class \<^verbatim>\<open>Exception\<close> and not time-outs; an
  interruption of the process (\<^verbatim>\<open>KeyboardInterrupt\<close>, a cancelled task) is no outcome of
  the model.
\<close>

definition log_full :: "(string \<Rightarrow> py_exn option) \<Rightarrow> string \<Rightarrow> state \<Rightarrow> py_exn + state" where
  "log_full lg msg st = (case lg msg of Some x \<Rightarrow> Inl x | None \<Rightarrow> Inr (log_line msg st))"

text \<open>
  \<^verbatim>\<open>run_cmd\<close> (lines 87-109) with all its outcomes. The \<^verbatim>\<open>try\<close> block holds the subprocess
  and the \<^verbatim>\<open>log\<close> of the standard error: an exception of that \<^verbatim>\<open>log\<close> is caught by
  \<^verbatim>\<open>except Exception\<close>. Each of the two \<^verbatim>\<open>except\<close> clauses calls \<^verbatim>\<open>log\<close> and returns the empty
  string; nothing catches an exception of \<^verbatim>\<open>log\<close> there (\<open>handler\<close>). With
  \<^verbatim>\<open>timeout=None\<close>, \<^verbatim>\<open>asyncio.wait_for\<close> waits until the command ends.
\<close>

definition handler ::
  "(string \<Rightarrow> py_exn option) \<Rightarrow> string \<Rightarrow> state \<Rightarrow> string outcome \<times> state" where
  "handler lg line st =
     (case log_full lg line st of
        Inl x \<Rightarrow> (Raised x, st)
      | Inr st1 \<Rightarrow> (Returned [], st1))"

definition run_cmd_full ::
  "(string \<Rightarrow> py_exn option) \<Rightarrow> env \<Rightarrow> string \<Rightarrow> int option \<Rightarrow> state
     \<Rightarrow> string outcome \<times> state" where
  "run_cmd_full lg e cmd timeout st =
     (let st1 = st\<lparr>cmds := cmds st @ [cmd]\<rparr>
      in case proc e cmd timeout of
           Completed out err \<Rightarrow>
             (let out_s = strip out; err_s = strip err
              in if err_s \<noteq> [] then
                   (case log_full lg (''[CMD-ERR] '' @ cmd @ '' => '' @ err_s) st1 of
                      Inr st2 \<Rightarrow> (Returned out_s, st2)
                    | Inl x \<Rightarrow>
                        handler lg (''[CMD-ERR] Exception running: '' @ cmd @ '' => '' @ exn_text x)
                          st1)
                 else (Returned out_s, st1))
         | TimedOut \<Rightarrow>
             if timeout = None then (Hung, st1)
             else handler lg (''[CMD-ERR] Timeout running: '' @ cmd) st1
         | Failed msg \<Rightarrow>
             handler lg (''[CMD-ERR] Exception running: '' @ cmd @ '' => '' @ msg) st1)"

text \<open>
  The probes (lines 139-228) over \<open>run_cmd_full\<close>: the call of \<^verbatim>\<open>run_cmd\<close> stands before
  the \<^verbatim>\<open>try\<close> of each probe, so what it raises leaves the probe.
\<close>

definition measure_skew_windows_stripchart_full ::
  "(string \<Rightarrow> py_exn option) \<Rightarrow> (string \<Rightarrow> py_exn + int) \<Rightarrow> env \<Rightarrow> state
     \<Rightarrow> int option outcome \<times> state" where
  "measure_skew_windows_stripchart_full lg conv e st =
     (case run_cmd_full lg e
             ''w32tm /stripchart /computer:time.windows.com /dataonly /samples:1'' (Some 10) st of
        (Raised x, st1) \<Rightarrow> (Raised x, st1)
      | (Hung, st1) \<Rightarrow> (Hung, st1)
      | (Returned out, st1) \<Rightarrow>
          if out = [] then (Returned None, st1)
          else (case stripchart_secs_text out of
                  None \<Rightarrow> (Returned None, st1)
                | Some secs_text \<Rightarrow>
                    (case conv secs_text of
                       Inl x \<Rightarrow> (Returned None, st1)
                     | Inr skew_ns \<Rightarrow> (Returned (Some skew_ns), st1))))"

definition measure_skew_windows_status_full ::
  "(string \<Rightarrow> py_exn option) \<Rightarrow> (string \<Rightarrow> py_exn + int) \<Rightarrow> env \<Rightarrow> state
     \<Rightarrow> int option outcome \<times> state" where
  "measure_skew_windows_status_full lg conv e st =
     (case run_cmd_full lg e ''w32tm /query /status'' (Some 6) st of
        (Raised x, st1) \<Rightarrow> (Raised x, st1)
      | (Hung, st1) \<Rightarrow> (Hung, st1)
      | (Returned out, st1) \<Rightarrow>
          if out = [] then (Returned None, st1)
          else (case status_scan conv (splitlines out) of
                  Inl x \<Rightarrow> (Raised x, st1)
                | Inr r \<Rightarrow> (Returned r, st1)))"

definition measure_skew_windows_full ::
  "(string \<Rightarrow> py_exn option) \<Rightarrow> (string \<Rightarrow> py_exn + int) \<Rightarrow> env \<Rightarrow> state
     \<Rightarrow> int option outcome \<times> state" where
  "measure_skew_windows_full lg conv e st =
     (case measure_skew_windows_stripchart_full lg conv e st of
        (Returned None, st1) \<Rightarrow> measure_skew_windows_status_full lg conv e st1
      | (r, st1) \<Rightarrow> (r, st1))"

definition measure_skew_chrony_full ::
  "(string \<Rightarrow> py_exn option) \<Rightarrow> (string \<Rightarrow> py_exn + int) \<Rightarrow> env \<Rightarrow> state
     \<Rightarrow> int option outcome \<times> state" where
  "measure_skew_chrony_full lg conv e st =
     (case run_cmd_full lg e ''chronyc tracking'' (Some 6) st of
        (Raised x, st1) \<Rightarrow> (Raised x, st1)
      | (Hung, st1) \<Rightarrow> (Hung, st1)
      | (Returned out, st1) \<Rightarrow>
          if out = [] then (Returned None, st1)
          else (Returned (chrony_scan conv (splitlines out)), st1))"

definition measure_skew_ntpd_full ::
  "(string \<Rightarrow> py_exn option) \<Rightarrow> (string \<Rightarrow> py_exn + int) \<Rightarrow> env \<Rightarrow> state
     \<Rightarrow> int option outcome \<times> state" where
  "measure_skew_ntpd_full lg conv e st =
     (case run_cmd_full lg e ''ntpq -c rv'' (Some 6) st of
        (Raised x, st1) \<Rightarrow> (Raised x, st1)
      | (Hung, st1) \<Rightarrow> (Hung, st1)
      | (Returned out, st1) \<Rightarrow>
          if out = [] then (Returned None, st1)
          else (Returned (ntpd_scan conv (split_ws (replace_char CHR '','' '' '' out))), st1))"

section \<open>Corrections and the dispatch loop\<close>

text \<open>
  The four corrections of \<^verbatim>\<open>driftMonitorDual.py\<close> (lines 233-252); the timeout is the
  default 15. The two for Windows are called from lines 277 and 280 only.
\<close>

definition apply_windows_small :: "env \<Rightarrow> state \<Rightarrow> state" where
  "apply_windows_small e st =
     log_line ''[ACTION] w32tm /resync /nowait issued (small adjustment)''
       (snd (run_cmd e ''w32tm /resync /nowait'' 15 st))"

definition apply_windows_force :: "env \<Rightarrow> state \<Rightarrow> state" where
  "apply_windows_force e st =
     log_line ''[ACTION] w32tm /resync /force issued (forced step)''
       (snd (run_cmd e ''w32tm /resync /force'' 15 st))"

definition apply_chrony_small :: "env \<Rightarrow> state \<Rightarrow> state" where
  "apply_chrony_small e st =
     log_line ''[ACTION] chronyc makestep 0.001 3 issued (small adjustment)''
       (snd (run_cmd e ''chronyc makestep 0.001 3'' 15 st))"

definition apply_chrony_force :: "env \<Rightarrow> state \<Rightarrow> state" where
  "apply_chrony_force e st =
     log_line ''[ACTION] chronyc makestep issued (forced step)''
       (snd (run_cmd e ''chronyc makestep'' 15 st))"

text \<open>
  Lines 310-315 of \<^verbatim>\<open>drift_check_and_correct_unix\<close>: read the previous skew, store the
  new one in \<^verbatim>\<open>memo\<close>, save the memo, append to the history, log the measurement.
\<close>

definition record_skew :: "config \<Rightarrow> string \<Rightarrow> int \<Rightarrow> state \<Rightarrow> state" where
  "record_skew cfg tool skew_ns st =
     (let last = dict_get (memo st) ''last_skew_ns'' (PyInt 0);
          st1 = st\<lparr>memo := dict_set (memo st) ''last_skew_ns'' (PyInt skew_ns)\<rparr>;
          st2 = save_memo cfg (memo st1) st1;
          st3 = st2\<lparr>skew_history := deque_append HISTORY_LEN (skew_history st2) skew_ns\<rparr>
      in log_line (''[MEASURE] '' @ tool @ '' skew = '' @ str_int skew_ns
                   @ '' ns (previous '' @ str_num last @ '' ns)'') st3)"

text \<open>
  \<^verbatim>\<open>drift_check_and_correct_windows\<close> (lines 257-283). Line 269 is
  \<^verbatim>\<open>save_memo(memo := memo)\<close>: the assignment expression binds \<^verbatim>\<open>memo\<close> in the function, which
  makes the name local to it, so that line 267, \<^verbatim>\<open>last = memo.get("last_skew_ns", 0)\<close>, reads
  a local variable that has no value yet and raises \<^verbatim>\<open>UnboundLocalError\<close>. After a measurement
  that succeeds the function raises there; lines 268-283 (memo, history, decision and
  correction) are never reached. \<^verbatim>\<open>drift_check_and_correct_unix\<close> has \<^verbatim>\<open>save_memo(memo)\<close> and
  uses the module's \<^verbatim>\<open>memo\<close>.
\<close>

definition drift_check_and_correct_windows ::
  "config \<Rightarrow> (string \<Rightarrow> py_exn + int) \<Rightarrow> env \<Rightarrow> state \<Rightarrow> (py_exn + int option) \<times> state" where
  "drift_check_and_correct_windows cfg conv e st =
     (case measure_skew_windows conv e st of
        (Inl x, st1) \<Rightarrow> (Inl x, st1)
      | (Inr None, st1) \<Rightarrow> (Inr None, log_line ''[WARN] Could not measure skew on Windows'' st1)
      | (Inr (Some skew_ns), st1) \<Rightarrow> (Inl UnboundLocalError, st1))"

text \<open>\<^verbatim>\<open>drift_check_and_correct_unix\<close> (lines 285-333).\<close>

definition ntpdate :: "string \<Rightarrow> env \<Rightarrow> state \<Rightarrow> state" where
  "ntpdate band e st =
     log_line (''[ACTION] ntpdate attempted for '' @ band @ '' skew'')
       (snd (run_cmd e ''sudo ntpdate -u pool.ntp.org || true'' 15 st))"

definition drift_check_and_correct_unix ::
  "config \<Rightarrow> (string \<Rightarrow> py_exn + int) \<Rightarrow> env \<Rightarrow> state \<Rightarrow> int option \<times> state" where
  "drift_check_and_correct_unix cfg conv e st =
     (if \<not> which e ''chronyc'' \<and> \<not> which e ''ntpq''
      then (None, log_line ''[WARN] No chronyc or ntpq available to measure skew'' st)
      else
        (let tool = (if which e ''chronyc'' then ''chrony'' else ''ntpd'');
             (skew, st1) = (if which e ''chronyc'' then measure_skew_chrony conv e st
                            else measure_skew_ntpd conv e st)
         in case skew of
              None \<Rightarrow> (None, log_line ''[WARN] Could not parse skew from Unix tool output'' st1)
            | Some skew_ns \<Rightarrow>
                (let st2 = record_skew cfg tool skew_ns st1
                 in (Some skew_ns,
                     (case classify (PRECISION_THRESHOLD_NS (MODE cfg)) skew_ns of
                        SmallAdjust \<Rightarrow>
                          if tool = ''chrony'' then apply_chrony_small e st2
                          else ntpdate ''small'' e st2
                      | ForceStep \<Rightarrow>
                          if tool = ''chrony'' then apply_chrony_force e st2
                          else ntpdate ''large'' e st2
                      | NoAction \<Rightarrow>
                          log_line (''[DECISION] No adjustment required for Unix ''
                                    @ ''(skew within negligible range)'') st2)))))"

text \<open>
  One pass of the body of \<^verbatim>\<open>ultrafast_loop\<close> (lines 407-412), of \<^verbatim>\<open>one_shot_run\<close> alike:
  the cycle of the platform. \<^verbatim>\<open>draw_tui\<close> and the sleep change nothing in the state.
\<close>

definition cycle ::
  "config \<Rightarrow> (string \<Rightarrow> py_exn + int) \<Rightarrow> env \<Rightarrow> state \<Rightarrow> (py_exn + int option) \<times> state" where
  "cycle cfg conv e st =
     (if IS_WINDOWS cfg then drift_check_and_correct_windows cfg conv e st
      else (case drift_check_and_correct_unix cfg conv e st of (r, st1) \<Rightarrow> (Inr r, st1)))"

text \<open>
  \<^verbatim>\<open>ultrafast_loop\<close> is \<^verbatim>\<open>while True\<close>: it ends only when a cycle raises. Its run over the
  environments of finitely many cycles is the state after them, with the exception that
  ended the run, if one did.
\<close>

fun cycles ::
  "config \<Rightarrow> (string \<Rightarrow> py_exn + int) \<Rightarrow> env list \<Rightarrow> state \<Rightarrow> py_exn option \<times> state" where
  "cycles cfg conv [] st = (None, st)"
| "cycles cfg conv (e # es) st =
     (case cycle cfg conv e st of
        (Inl x, st1) \<Rightarrow> (Some x, st1)
      | (Inr r, st1) \<Rightarrow> cycles cfg conv es st1)"

definition ultrafast_loop ::
  "config \<Rightarrow> (string \<Rightarrow> py_exn + int) \<Rightarrow> env list \<Rightarrow> state \<Rightarrow> py_exn option \<times> state" where
  "ultrafast_loop cfg conv es st =
     cycles cfg conv es (log_line ''[ULTRAFAST] Entering continuous monitoring loop...'' st)"

text \<open>
  \<^verbatim>\<open>one_shot_run\<close> (lines 417-424) and \<^verbatim>\<open>main\<close> (lines 429-439); \<^verbatim>\<open>Linux\<close> stands for
  the name of any platform other than Windows. In the one-shot modes \<^verbatim>\<open>main\<close> runs one
  cycle, in the first of the environments.
\<close>

definition mode_name :: "mode \<Rightarrow> string" where
  "mode_name m = (case m of Fast \<Rightarrow> ''fast'' | Ultrafast \<Rightarrow> ''ultrafast'' | Lazy \<Rightarrow> ''lazy'')"

definition one_shot_run ::
  "config \<Rightarrow> (string \<Rightarrow> py_exn + int) \<Rightarrow> env \<Rightarrow> state \<Rightarrow> py_exn option \<times> state" where
  "one_shot_run cfg conv e st =
     (case cycle cfg conv e
             (log_line (''[ONE-SHOT] Running one-shot check (mode='' @ mode_name (MODE cfg) @ '')'') st) of
        (Inl x, st1) \<Rightarrow> (Some x, st1)
      | (Inr r, st1) \<Rightarrow> (None, log_line ''[ONE-SHOT] Completed'' st1))"

definition main ::
  "config \<Rightarrow> (string \<Rightarrow> py_exn + int) \<Rightarrow> env list \<Rightarrow> state \<Rightarrow> py_exn option \<times> state" where
  "main cfg conv es st =
     (let st1 = log_line (''Starting dispatchTUI on ''
                          @ (if IS_WINDOWS cfg then ''Windows'' else ''Linux'')
                          @ '' | Mode='' @ mode_name (MODE cfg)) st;
          st2 = (if skew_history st1 = []
                 then st1\<lparr>skew_history := pushes HISTORY_LEN (skew_history st1) [0, 0, 0, 0]\<rparr>
                 else st1)
      in if MODE cfg = Ultrafast then ultrafast_loop cfg conv es st2
         else (case es of [] \<Rightarrow> (None, st2) | e # rest \<Rightarrow> one_shot_run cfg conv e st2))"

section \<open>Mode selection\<close>





section \<open>The cycle of driftMonitor.py\<close>

text \<open>
  \<^verbatim>\<open>run_cmd\<close> (lines 62-70) has no timeout and returns the text of an exception as if it
  were the command's output.
\<close>

definition run_cmd_monitor :: "env \<Rightarrow> string \<Rightarrow> state \<Rightarrow> (string \<times> state) outcome" where
  "run_cmd_monitor e cmd st =
     (let st1 = st\<lparr>cmds := cmds st @ [cmd]\<rparr>
      in case proc e cmd None of
           Completed out err \<Rightarrow> Returned (strip out, st1)
         | TimedOut \<Rightarrow> Hung
         | Failed msg \<Rightarrow> Returned (msg, st1))"

text \<open>
  \<^verbatim>\<open>measure_skew_windows\<close> (lines 75-87): \<^verbatim>\<open>ns\<close> starts at 0 and is overwritten by every
  \<^verbatim>\<open>Offset\<close> line that converts; the bare \<^verbatim>\<open>except\<close> skips the others.
\<close>

fun monitor_scan :: "(string \<Rightarrow> py_exn + int) \<Rightarrow> int \<Rightarrow> string list \<Rightarrow> int" where
  "monitor_scan conv ns [] = ns"
| "monitor_scan conv ns (line # ls) =
     monitor_scan conv
       (if contains ''Offset'' line then
          (case split_all CHR '':'' line of
             a # b # rest \<Rightarrow>
               (case conv (replace_char CHR ''s'' [] (strip b)) of Inl x \<Rightarrow> ns | Inr v \<Rightarrow> v)
           | _ \<Rightarrow> ns)
        else ns)
       ls"

definition measure_skew_windows_monitor ::
  "(string \<Rightarrow> py_exn + int) \<Rightarrow> env \<Rightarrow> state \<Rightarrow> (int \<times> state) outcome" where
  "measure_skew_windows_monitor conv e st =
     (case run_cmd_monitor e ''w32tm /query /status'' st of
        Returned (out, st1) \<Rightarrow> Returned (monitor_scan conv 0 (splitlines out), st1)
      | Raised x \<Rightarrow> Raised x
      | Hung \<Rightarrow> Hung)"

text \<open>The arrow U+2192 of the log lines, as its UTF-8 bytes.\<close>

definition arrow :: string where
  "arrow = [CHR 0xE2, CHR 0x86, CHR 0x92]"

text \<open>\<^verbatim>\<open>drift_correction_windows\<close> (lines 89-107).\<close>

definition drift_correction_windows_monitor ::
  "config \<Rightarrow> (string \<Rightarrow> py_exn + int) \<Rightarrow> env \<Rightarrow> state \<Rightarrow> state outcome" where
  "drift_correction_windows_monitor cfg conv e st =
     (case measure_skew_windows_monitor conv e st of
        Raised x \<Rightarrow> Raised x
      | Hung \<Rightarrow> Hung
      | Returned (skew_ns, st1) \<Rightarrow>
          (let last_skew = dict_get (memo st1) ''last_skew'' (PyInt 0);
               st2 = st1\<lparr>skew_history :=
                        deque_append HISTORY_LEN_monitor (skew_history st1) skew_ns\<rparr>;
               st3 = log_line (''[INFO] Current skew: '' @ str_int skew_ns @ '' ns (last: ''
                               @ str_num last_skew @ '' ns)'') st2;
               acted =
                 (case classify_monitor skew_ns of
                    SmallAdjust \<Rightarrow>
                      run_cmd_monitor e ''w32tm /resync /nowait''
                        (log_line (''[INFO] Small skew '' @ arrow @ '' gradual resync'') st3)
                  | ForceStep \<Rightarrow>
                      run_cmd_monitor e ''w32tm /resync /force''
                        (log_line (''[WARN] Large skew '' @ arrow @ '' forced step'') st3)
                  | NoAction \<Rightarrow>
                      Returned ([], log_line ''[INFO] Skew negligible; no action'' st3))
           in case acted of
                Raised x \<Rightarrow> Raised x
              | Hung \<Rightarrow> Hung
              | Returned (out, st4) \<Rightarrow>
                  (let st5 = st4\<lparr>memo := dict_set (memo st4) ''last_skew'' (PyInt skew_ns)\<rparr>
                   in case save_memo_monitor cfg (memo st5) (fs st5) of
                        Inl x \<Rightarrow> Raised x
                      | Inr f \<Rightarrow> Returned (st5\<lparr>fs := f\<rparr>))))"

section \<open>The cycle of dispatcher.py and dispatchService.py\<close>

text \<open>
  In these two scripts the skew is the float \<^verbatim>\<open>float(text) * 1e9\<close>. The float is taken as
  the real number it denotes, and what Python computes with floats is a parameter:
  the conversion of a text (or the exception it raises), the format \<^verbatim>\<open>:.0f\<close> of the skew
  and of the number read from the memo, and the text that \<^verbatim>\<open>json.dump\<close> writes for a float.
\<close>

record floats =
  to_ns :: "string \<Rightarrow> py_exn + real"
  fmt0 :: "real \<Rightarrow> string"
  fmt_num :: "num \<Rightarrow> string"
  float_repr :: "real \<Rightarrow> string"

text \<open>\<^verbatim>\<open>run_cmd\<close> (\<^verbatim>\<open>dispatcher.py\<close>, lines 55-65): no timeout and no handler.\<close>

definition run_cmd_dispatcher :: "env \<Rightarrow> string \<Rightarrow> state \<Rightarrow> (string \<times> state) outcome" where
  "run_cmd_dispatcher e cmd st =
     (let st1 = st\<lparr>cmds := cmds st @ [cmd]\<rparr>
      in case proc e cmd None of
           Completed out err \<Rightarrow>
             (let result = strip out; err_str = strip err
              in Returned (result,
                   if err_str \<noteq> [] then log_line (''[CMD-ERR] '' @ cmd @ '' => '' @ err_str) st1
                   else st1))
         | TimedOut \<Rightarrow> Hung
         | Failed msg \<Rightarrow> Raised OSError)"

text \<open>
  Lines 135-136 of \<^verbatim>\<open>dispatcher.py\<close>: the text that reaches \<^verbatim>\<open>float\<close>, from the last line
  with a comma; \<open>None\<close> when an index is out of range.
\<close>

definition skew_text_dispatcher :: "string \<Rightarrow> string option" where
  "skew_text_dispatcher output =
     (let ls = filter (\<lambda>l. CHR '','' \<in> set l) (splitlines output)
      in if ls = [] then None
         else (case split_all CHR '','' (last ls) of
                 a # b # rest \<Rightarrow> Some (replace_char CHR ''s'' [] (strip b))
               | _ \<Rightarrow> None))"

text \<open>
  \<^verbatim>\<open>drift_correction_windows\<close> (\<^verbatim>\<open>dispatcher.py\<close>, lines 130-162, where the threshold is
  \<^verbatim>\<open>1e3\<close>; \<^verbatim>\<open>dispatchService.py\<close>, lines 136-165, where it is \<^verbatim>\<open>PRECISION_THRESHOLD_NS\<close>).
\<close>

definition drift_correction_windows_dispatcher ::
  "real \<Rightarrow> config \<Rightarrow> floats \<Rightarrow> env \<Rightarrow> state \<Rightarrow> state outcome" where
  "drift_correction_windows_dispatcher threshold cfg fl e st =
     (case run_cmd_dispatcher e
             ''w32tm /stripchart /computer:time.windows.com /dataonly /samples:1''
             (log_line ''[INFO] Checking clock skew for high-precision adjustment...'' st) of
        Raised x \<Rightarrow> Raised x
      | Hung \<Rightarrow> Hung
      | Returned (output, st1) \<Rightarrow>
          (let parsed = (case skew_text_dispatcher output of
                           None \<Rightarrow> None
                         | Some t \<Rightarrow> (case to_ns fl t of Inl x \<Rightarrow> None | Inr v \<Rightarrow> Some v));
               st2 = (if parsed = None
                      then log_line ''[WARN] Could not parse skew, defaulting to forced resync'' st1
                      else st1)
           in case load_last_skew_dispatcher cfg (fs st2) of
                Inl x \<Rightarrow> Raised x
              | Inr last_skew_ns \<Rightarrow>
                  (case parsed of
                     None \<Rightarrow> Returned st2
                   | Some skew_ns \<Rightarrow>
                       (let st3 = log_line (''[INFO] Current skew: '' @ fmt0 fl skew_ns
                                            @ '' ns (last: '' @ fmt_num fl last_skew_ns @ '' ns)'') st2;
                            acted =
                              (case classify_service threshold skew_ns of
                                 SmallAdjust \<Rightarrow>
                                   (case run_cmd_dispatcher e ''w32tm /resync /nowait'' st3 of
                                      Returned (out, st4) \<Rightarrow>
                                        Returned (log_line (''[INFO] Applied precise incremental ''
                                                            @ ''resync for small skew'') st4)
                                    | Raised x \<Rightarrow> Raised x
                                    | Hung \<Rightarrow> Hung)
                               | ForceStep \<Rightarrow>
                                   (case run_cmd_dispatcher e ''w32tm /resync /force'' st3 of
                                      Returned (out, st4) \<Rightarrow>
                                        Returned (log_line (''[INFO] Applied forced resync ''
                                                            @ ''for large skew'') st4)
                                    | Raised x \<Rightarrow> Raised x
                                    | Hung \<Rightarrow> Hung)
                               | NoAction \<Rightarrow>
                                   Returned (log_line (''[INFO] Skew negligible; ''
                                                       @ ''no adjustment needed'') st3))
                        in case acted of
                             Raised x \<Rightarrow> Raised x
                           | Hung \<Rightarrow> Hung
                           | Returned st5 \<Rightarrow>
                               (case write_memo_dispatcher cfg
                                       (json_dumps [(''last_skew_ns'', PyFloat (float_repr fl skew_ns))])
                                       (fs st5) of
                                  Inl x \<Rightarrow> Raised x
                                | Inr f \<Rightarrow> Returned (st5\<lparr>fs := f\<rparr>))))))"

section \<open>A restart\<close>

text \<open>
  What a new process of \<^verbatim>\<open>driftMonitorDual.py\<close> starts from (lines 62 and 134): the file
  system as the old process left it, an empty history, and the memo that \<^verbatim>\<open>load_memo\<close>
  reads.
\<close>

definition restart :: "config \<Rightarrow> state \<Rightarrow> state" where
  "restart cfg st =
     \<lparr>memo = fst (load_memo cfg (fs st)), fs = fs st, skew_history = [],
      logs = logs st @ snd (load_memo cfg (fs st)), cmds = cmds st\<rparr>"

section \<open>Notions used in the statements\<close>

text \<open>
  A valid memo: distinct keys of plain characters, each with an integer of 64 bits, as
  \<^verbatim>\<open>{"last_skew_ns": n}\<close> is.
\<close>

definition int64 :: "int \<Rightarrow> bool" where
  "int64 i = (- (2 ^ 63) \<le> i \<and> i < 2 ^ 63)"

definition valid_member :: "string \<times> num \<Rightarrow> bool" where
  "valid_member kv =
     (list_all key_char (fst kv) \<and> (case snd kv of PyInt i \<Rightarrow> int64 i | PyFloat s \<Rightarrow> False))"

definition valid_memo :: "dict \<Rightarrow> bool" where
  "valid_memo d = (distinct (map fst d) \<and> list_all valid_member d)"

text \<open>A text that follows a number in what \<^verbatim>\<open>json.dump\<close> writes starts with a brace or a comma.\<close>

definition ends_number :: "string \<Rightarrow> bool" where
  "ends_number r = (r \<noteq> [] \<and> (hd r = CHR ''}'' \<or> hd r = CHR '',''))"

definition set_all :: "dict \<Rightarrow> dict \<Rightarrow> dict" where
  "set_all acc d = foldl (\<lambda>a kv. dict_set a (fst kv) (snd kv)) acc d"

text \<open>A step that touches the file \<open>p\<close> alone.\<close>

definition op_on :: "string \<Rightarrow> fs_op \<Rightarrow> bool" where
  "op_on p op = (case op of Truncate a \<Rightarrow> a = p | Write a body \<Rightarrow> a = p | Replace a b \<Rightarrow> False)"

text \<open>
  The commands of the probes and the lines logged when a probe fails, in
  \<^verbatim>\<open>driftMonitorDual.py\<close>. \<open>only_probed st st'\<close>: the state \<open>st'\<close> differs from \<open>st\<close> by
  probe commands run and the \<^verbatim>\<open>[CMD-ERR]\<close> lines that \<^verbatim>\<open>run_cmd\<close> logged for them, and by
  nothing else.
\<close>

definition probe_commands :: "string list" where
  "probe_commands =
     [''w32tm /stripchart /computer:time.windows.com /dataonly /samples:1'',
      ''w32tm /query /status'', ''chronyc tracking'', ''ntpq -c rv'']"

definition probe_warnings :: "string list" where
  "probe_warnings =
     [''[WARN] Could not measure skew on Windows'',
      ''[WARN] No chronyc or ntpq available to measure skew'',
      ''[WARN] Could not parse skew from Unix tool output'']"

definition only_probed :: "state \<Rightarrow> state \<Rightarrow> bool" where
  "only_probed st st' =
     (memo st' = memo st \<and> fs st' = fs st \<and> skew_history st' = skew_history st \<and>
      (\<exists>probes. cmds st' = cmds st @ probes \<and> set probes \<subseteq> set probe_commands) \<and>
      (\<exists>ls. logs st' = logs st @ ls \<and> list_all (\<lambda>l. startswith l ''[CMD-ERR]'') ls))"

text \<open>Concrete configurations, environments and states for the examples.\<close>

definition cfg_win :: config where
  "cfg_win = \<lparr>MODE = Fast, IS_WINDOWS = True\<rparr>"

definition cfg_unix :: config where
  "cfg_unix = \<lparr>MODE = Ultrafast, IS_WINDOWS = False\<rparr>"

definition fs_with :: "config \<Rightarrow> string \<Rightarrow> filesystem" where
  "fs_with cfg body =
     \<lparr>files = (\<lambda>p. if p = MEMO_FILE cfg then Some body else None),
      readable = True, writable = True\<rparr>"

definition st_empty :: "config \<Rightarrow> state" where
  "st_empty cfg =
     \<lparr>memo = [],
      fs = \<lparr>files = (\<lambda>p. None), readable = True, writable = True\<rparr>,
      skew_history = [], logs = [], cmds = []\<rparr>"

definition st_memo :: "config \<Rightarrow> string \<Rightarrow> state" where
  "st_memo cfg body =
     \<lparr>memo = [], fs = fs_with cfg body, skew_history = [], logs = [], cmds = []\<rparr>"

definition env_silent :: env where
  "env_silent = \<lparr>proc = (\<lambda>cmd t. Completed [] []), which = (\<lambda>tool. False)\<rparr>"

definition env_timeout :: env where
  "env_timeout = \<lparr>proc = (\<lambda>cmd t. TimedOut), which = (\<lambda>tool. True)\<rparr>"

definition env_out :: "string \<Rightarrow> env" where
  "env_out out = \<lparr>proc = (\<lambda>cmd t. Completed out []), which = (\<lambda>tool. tool = ''chronyc'')\<rparr>"

definition log_ok :: "string \<Rightarrow> py_exn option" where
  "log_ok line = None"

definition log_failing :: "string \<Rightarrow> py_exn option" where
  "log_failing line = Some OSError"

definition conv_none :: "string \<Rightarrow> py_exn + int" where
  "conv_none s = Inl ValueError"

definition conv_table :: "string \<Rightarrow> py_exn + int" where
  "conv_table s =
     (if s = ''0.1'' then Inr 100000000
      else if s = ''0.2'' then Inr 200000000
      else Inl ValueError)"

definition floats_plain :: floats where
  "floats_plain =
     \<lparr>to_ns = (\<lambda>s. if s = ''-0.0090668'' then Inr (- 9066800) else Inl ValueError),
      fmt0 = (\<lambda>x. ''-9066800''),
      fmt_num = str_num,
      float_repr = (\<lambda>x. ''-9066800.0'')\<rparr>"

section \<open>Properties of the decision bands\<close>

lemma classify_small_iff:
  "classify t s = SmallAdjust \<longleftrightarrow> t < \<bar>s\<bar> \<and> \<bar>s\<bar> < 1000000"
  by (simp add: classify_def Let_def)

lemma classify_force_iff:
  "classify t s = ForceStep \<longleftrightarrow> 100000000 < \<bar>s\<bar> \<and> \<bar>s\<bar> < 1000000000"
  by (simp add: classify_def Let_def)

lemma classify_none_iff:
  "classify t s = NoAction \<longleftrightarrow>
     \<not> (t < \<bar>s\<bar> \<and> \<bar>s\<bar> < 1000000) \<and> \<not> (100000000 < \<bar>s\<bar> \<and> \<bar>s\<bar> < 1000000000)"
  by (simp add: classify_def Let_def)

lemma classify_service_iff:
  "(classify_service t x = SmallAdjust \<longleftrightarrow> t < \<bar>x\<bar> \<and> \<bar>x\<bar> < 1000000) \<and>
   (classify_service t x = ForceStep \<longleftrightarrow> 100000000 < \<bar>x\<bar> \<and> \<bar>x\<bar> < 1000000000)"
  by (simp add: classify_service_def)

lemma classify_monitor_iff:
  "(classify_monitor s = SmallAdjust \<longleftrightarrow> \<bar>s\<bar> < 1000000) \<and>
   (classify_monitor s = ForceStep \<longleftrightarrow> 100000000 < \<bar>s\<bar>)"
  by (simp add: classify_monitor_def)

lemma classify_at_threshold:
  "\<bar>s\<bar> = PRECISION_THRESHOLD_NS m \<Longrightarrow> classify (PRECISION_THRESHOLD_NS m) s = NoAction"
  by (simp add: classify_none_iff) (simp add: PRECISION_THRESHOLD_NS_def)

lemma classify_above_threshold:
  "\<bar>s\<bar> = PRECISION_THRESHOLD_NS m + 1 \<Longrightarrow>
   classify (PRECISION_THRESHOLD_NS m) s = (if m = Lazy then NoAction else SmallAdjust)"
  by (cases m) (simp_all add: classify_def Let_def PRECISION_THRESHOLD_NS_def)

text \<open>
  C1, as stated, at the lazy preset: the threshold is \<open>1000000\<close>, so a skew of
  \<open>threshold + 1\<close> nanoseconds is outside the small band and gets no action.
\<close>

theorem classify_lazy_plus_one_counterexample:
  "\<bar>1000001 :: int\<bar> = PRECISION_THRESHOLD_NS Lazy + 1 \<and>
   classify (PRECISION_THRESHOLD_NS Lazy) 1000001 = NoAction \<and>
   classify (PRECISION_THRESHOLD_NS Lazy) 1000001 \<noteq> SmallAdjust"
  by (simp add: classify_def PRECISION_THRESHOLD_NS_def)

text \<open>
  C1, amended. For every skew \<open>s\<close> and threshold \<open>t\<close>, the decision of
  \<^verbatim>\<open>driftMonitorDual.py\<close> is SmallAdjust iff \<open>t < \<bar>s\<bar> < 1000000\<close>, ForceStep iff
  \<open>100000000 < \<bar>s\<bar> < 1000000000\<close>, and NoAction otherwise. The boundaries are strict:
  \<open>\<bar>s\<bar> = 1000000\<close>, \<open>\<bar>s\<bar> = 100000000\<close> and \<open>\<bar>s\<bar> = 1000000000\<close> give NoAction for every
  threshold, and \<open>\<bar>s\<bar> = t\<close> gives NoAction for the threshold \<open>t\<close> of each preset. A skew of
  \<open>\<bar>s\<bar> = t + 1\<close> gives SmallAdjust exactly when \<open>t + 1 < 1000000\<close>: for the fast and
  ultrafast presets it does, for the lazy preset it gives NoAction.
\<close>

theorem classify_bands:
  "(classify t s = SmallAdjust \<longleftrightarrow> t < \<bar>s\<bar> \<and> \<bar>s\<bar> < 1000000) \<and>
   (classify t s = ForceStep \<longleftrightarrow> 100000000 < \<bar>s\<bar> \<and> \<bar>s\<bar> < 1000000000) \<and>
   (classify t s = NoAction \<longleftrightarrow>
      \<not> (t < \<bar>s\<bar> \<and> \<bar>s\<bar> < 1000000) \<and> \<not> (100000000 < \<bar>s\<bar> \<and> \<bar>s\<bar> < 1000000000)) \<and>
   (\<bar>s\<bar> = 1000000 \<or> \<bar>s\<bar> = 100000000 \<or> \<bar>s\<bar> = 1000000000 \<longrightarrow> classify t s = NoAction) \<and>
   (\<bar>s\<bar> = PRECISION_THRESHOLD_NS m \<longrightarrow> classify (PRECISION_THRESHOLD_NS m) s = NoAction) \<and>
   (\<bar>s\<bar> = t + 1 \<longrightarrow> (classify t s = SmallAdjust \<longleftrightarrow> t + 1 < 1000000)) \<and>
   (\<bar>s\<bar> = PRECISION_THRESHOLD_NS m + 1 \<longrightarrow>
      classify (PRECISION_THRESHOLD_NS m) s = (if m = Lazy then NoAction else SmallAdjust))"
proof -
  have "\<bar>s\<bar> = 1000000 \<or> \<bar>s\<bar> = 100000000 \<or> \<bar>s\<bar> = 1000000000 \<longrightarrow> classify t s = NoAction"
    by (auto simp: classify_none_iff)
  moreover have "\<bar>s\<bar> = t + 1 \<longrightarrow> (classify t s = SmallAdjust \<longleftrightarrow> t + 1 < 1000000)"
    by (simp add: classify_small_iff)
  ultimately show ?thesis
    using classify_small_iff [of t s] classify_force_iff [of t s] classify_none_iff [of t s]
      classify_at_threshold [of s m] classify_above_threshold [of s m]
    by blast
qed

theorem classify_bands_witness:
  "\<bar>- 1001 :: int\<bar> = PRECISION_THRESHOLD_NS Ultrafast + 1 \<and>
   classify (PRECISION_THRESHOLD_NS Ultrafast) (- 1001) = SmallAdjust \<and>
   \<bar>1000000 :: int\<bar> = 1000000 \<and> classify 5 1000000 = NoAction \<and>
   \<bar>- 1000 :: int\<bar> = PRECISION_THRESHOLD_NS Ultrafast \<and>
   classify (PRECISION_THRESHOLD_NS Ultrafast) (- 1000) = NoAction"
  using classify_bands [of "PRECISION_THRESHOLD_NS Ultrafast" "- 1001" Ultrafast]
    classify_bands [of 5 1000000 Ultrafast]
    classify_bands [of "PRECISION_THRESHOLD_NS Ultrafast" "- 1000" Ultrafast]
  by (simp add: PRECISION_THRESHOLD_NS_def)

section \<open>Properties of the presets\<close>

text \<open>
  C2, as stated, at the lazy preset: its threshold is \<open>1000000\<close>, not below it.
\<close>

theorem lazy_threshold_counterexample:
  "\<not> PRECISION_THRESHOLD_NS Lazy < 1000000 \<and> \<not> PRECISION_THRESHOLD_NS_service Lazy < 1000000"
  by (simp add: PRECISION_THRESHOLD_NS_def PRECISION_THRESHOLD_NS_service_def)

text \<open>
  C2, amended. For each of the three presets the configured threshold is at most
  \<open>1000000\<close> nanoseconds; it is strictly less for fast (\<open>100000\<close>) and ultrafast (\<open>1000\<close>)
  and equal to \<open>1000000\<close> for lazy, in \<^verbatim>\<open>driftMonitorDual.py\<close> and in
  \<^verbatim>\<open>dispatchService.py\<close> alike.
\<close>

theorem preset_thresholds:
  "PRECISION_THRESHOLD_NS m \<le> 1000000 \<and>
   PRECISION_THRESHOLD_NS Fast = 100000 \<and>
   PRECISION_THRESHOLD_NS Ultrafast = 1000 \<and>
   PRECISION_THRESHOLD_NS Lazy = 1000000 \<and>
   PRECISION_THRESHOLD_NS_service m = real_of_int (PRECISION_THRESHOLD_NS m)"
  by (cases m) (simp_all add: PRECISION_THRESHOLD_NS_def PRECISION_THRESHOLD_NS_service_def)

section \<open>Properties of the history buffer\<close>

lemma deque_append_drop:
  "length dq \<le> n \<Longrightarrow> deque_append n dq x = drop (Suc (length dq) - n) (dq @ [x])"
  by (cases dq) (auto simp: deque_append_def Let_def Suc_diff_le)

lemma length_deque_append:
  "length dq \<le> n \<Longrightarrow> length (deque_append n dq x) \<le> n"
  by (cases dq) (auto simp: deque_append_def Let_def)

lemma length_pushes:
  "length dq \<le> n \<Longrightarrow> length (pushes n dq xs) \<le> n"
  by (induction xs arbitrary: dq) (auto simp: length_deque_append)

lemma pushes_drop:
  "length dq \<le> n \<Longrightarrow> pushes n dq xs = drop (length dq + length xs - n) (dq @ xs)"
proof (induction xs arbitrary: dq)
  case Nil
  then show ?case by simp
next
  case (Cons x xs)
  define k where "k = Suc (length dq) - n"
  define dq' where "dq' = deque_append n dq x"
  have dq': "dq' = drop k (dq @ [x])"
    unfolding dq'_def k_def using Cons.prems by (rule deque_append_drop)
  have k: "k \<le> Suc (length dq)"
    by (simp add: k_def)
  have len: "length dq' \<le> n"
    unfolding dq'_def using Cons.prems by (rule length_deque_append)
  have "pushes n dq (x # xs) = pushes n dq' xs"
    by (simp add: dq'_def)
  also have "\<dots> = drop (length dq' + length xs - n) (dq' @ xs)"
    using len by (rule Cons.IH)
  also have "dq' @ xs = drop k ((dq @ [x]) @ xs)"
  proof -
    have "drop k ((dq @ [x]) @ xs) = drop k (dq @ [x]) @ drop (k - length (dq @ [x])) xs"
      by (rule drop_append)
    moreover have "k - length (dq @ [x]) = 0"
      using k by simp
    ultimately show ?thesis
      by (simp only: dq' drop_0)
  qed
  also have "drop (length dq' + length xs - n) (drop k ((dq @ [x]) @ xs))
      = drop (length dq' + length xs - n + k) ((dq @ [x]) @ xs)"
    by (simp only: drop_drop)
  also have "length dq' + length xs - n + k = length dq + length (x # xs) - n"
    using Cons.prems by (simp add: dq' k_def)
  finally show ?case by simp
qed

lemma pushes_last:
  assumes "length dq \<le> n" "n \<le> length xs"
  shows "pushes n dq xs = drop (length xs - n) xs"
proof -
  have "pushes n dq xs = drop (length dq + length xs - n) (dq @ xs)"
    using assms(1) by (rule pushes_drop)
  also have "\<dots> = drop (length dq + length xs - n - length dq) xs"
    using assms by (simp add: drop_append)
  also have "length dq + length xs - n - length dq = length xs - n"
    using assms by simp
  finally show ?thesis .
qed

text \<open>
  C6. Let the capacity be \<^verbatim>\<open>HISTORY_LEN\<close> of \<^verbatim>\<open>driftMonitorDual.py\<close> (80) or of
  \<^verbatim>\<open>driftMonitor.py\<close> (50), and let the buffer hold at most that many samples (as the
  empty buffer the scripts start from does). For every run of more than capacity pushes,
  the buffer's length is at most the capacity after each push of the run, and after the
  whole run the buffer holds exactly the last capacity samples pushed, oldest first.
\<close>

theorem history_buffer_fifo:
  assumes "cap = HISTORY_LEN \<or> cap = HISTORY_LEN_monitor"
    and "length buf \<le> cap" and "cap < length samples"
  shows "(\<forall>k \<le> length samples. length (pushes cap buf (take k samples)) \<le> cap) \<and>
         pushes cap buf samples = drop (length samples - cap) samples \<and>
         length (pushes cap buf samples) = cap"
  using assms(2,3) by (simp add: length_pushes pushes_last)

theorem history_buffer_fifo_witness:
  "length ([] :: int list) \<le> HISTORY_LEN_monitor \<and>
   HISTORY_LEN_monitor < length (replicate 50 (0::int) @ [7, 8, 9]) \<and>
   pushes HISTORY_LEN_monitor [] (replicate 50 (0::int) @ [7, 8, 9]) = replicate 47 0 @ [7, 8, 9]"
  using history_buffer_fifo [of HISTORY_LEN_monitor "[]" "replicate 50 (0::int) @ [7, 8, 9]"]
  by (simp add: HISTORY_LEN_monitor_def)

section \<open>Properties of the JSON fragment\<close>

lemma is_digit_digit_char: "d < 10 \<Longrightarrow> is_digit (digit_char d)"
  by (simp add: is_digit_def digit_char_def)

lemma digit_val_digit_char: "d < 10 \<Longrightarrow> digit_val (digit_char d) = d"
  by (simp add: digit_val_def digit_char_def)

lemma of_char_digit_char: "d < 10 \<Longrightarrow> (of_char (digit_char d) :: nat) = 48 + d"
  by (simp add: digit_char_def)

lemma digit_char_zero_iff: "d < 10 \<Longrightarrow> digit_char d = CHR ''0'' \<longleftrightarrow> d = 0"
proof -
  assume d: "d < 10"
  have "digit_char d = CHR ''0'' \<longleftrightarrow> (of_char (digit_char d) :: nat) = of_char (CHR ''0'')"
    by (simp only: of_char_eq_iff)
  also have "\<dots> \<longleftrightarrow> d = 0"
    using d by (simp add: of_char_digit_char)
  finally show ?thesis .
qed

lemma digits_of_nonempty: "digits_of n \<noteq> []"
  by (subst digits_of.simps) simp

lemma digits_of_digits: "list_all is_digit (digits_of n)"
proof (induction n rule: digits_of.induct)
  case (1 n)
  show ?case
    by (subst digits_of.simps) (use 1 in \<open>simp add: is_digit_digit_char\<close>)
qed

lemma nat_of_digits_snoc: "nat_of_digits (ds @ [c]) = 10 * nat_of_digits ds + digit_val c"
  by (simp add: nat_of_digits_def)

lemma nat_of_digits_of: "nat_of_digits (digits_of n) = n"
proof (induction n rule: digits_of.induct)
  case (1 n)
  show ?case
  proof (cases "n < 10")
    case True
    then show ?thesis
      by (subst digits_of.simps) (simp add: nat_of_digits_def digit_val_digit_char)
  next
    case False
    then show ?thesis
      by (subst digits_of.simps) (use 1 in \<open>simp add: nat_of_digits_snoc digit_val_digit_char\<close>)
  qed
qed

lemma hd_digits_of: "0 < n \<Longrightarrow> hd (digits_of n) \<noteq> CHR ''0''"
proof (induction n rule: digits_of.induct)
  case (1 n)
  show ?case
  proof (cases "n < 10")
    case True
    with 1(2) show ?thesis
      by (subst digits_of.simps) (simp add: digit_char_zero_iff)
  next
    case False
    then have "0 < n div 10" by simp
    with 1(1) False have "hd (digits_of (n div 10)) \<noteq> CHR ''0''" by simp
    with False show ?thesis
      by (subst digits_of.simps) (simp add: digits_of_nonempty)
  qed
qed

lemma digits_of_0: "digits_of 0 = ''0''"
  using digit_char_zero_iff [of 0] by (subst digits_of.simps) simp

lemma ends_number_not_digit: "ends_number r \<Longrightarrow> \<not> is_digit (hd r)"
  by (auto simp: ends_number_def is_digit_def)

lemma takeWhile_digits: 
  "list_all is_digit ds \<Longrightarrow> ends_number r \<Longrightarrow> takeWhile is_digit (ds @ r) = ds"
  by (induction ds) (auto simp: ends_number_def is_digit_def neq_Nil_conv)

lemma dropWhile_digits: 
  "list_all is_digit ds \<Longrightarrow> ends_number r \<Longrightarrow> dropWhile is_digit (ds @ r) = r"
  by (induction ds) (auto simp: ends_number_def is_digit_def neq_Nil_conv)

lemma scan_int_digits_of:
  assumes "ends_number r"
  shows "scan_int (digits_of n @ r) = Some (digits_of n, r)"
proof (cases "n = 0")
  case True
  then show ?thesis by (simp add: digits_of_0 scan_int_def)
next
  case False
  obtain c t where ct: "digits_of n = c # t"
    using digits_of_nonempty [of n] by (cases "digits_of n") auto
  have c0: "c \<noteq> CHR ''0''"
    using hd_digits_of [of n] False ct by simp
  have dig: "list_all is_digit (c # t)"
    using digits_of_digits [of n] ct by simp
  have "scan_int ((c # t) @ r) = Some (takeWhile is_digit ((c # t) @ r), dropWhile is_digit ((c # t) @ r))"
    using c0 dig by (simp add: scan_int_def)
  also have "\<dots> = Some (c # t, r)"
    using takeWhile_digits [OF dig assms] dropWhile_digits [OF dig assms] by simp
  finally show ?thesis by (simp add: ct)
qed

lemma scan_frac_end: "ends_number r \<Longrightarrow> scan_frac r = ([], r)"
  by (auto simp: scan_frac_def ends_number_def split: list.splits)

lemma scan_exp_end: "ends_number r \<Longrightarrow> scan_exp r = ([], r)"
  by (auto simp: scan_exp_def ends_number_def split: list.splits)

lemma hd_digits_of_not_minus: "hd (digits_of n) \<noteq> CHR ''-''"
proof -
  obtain c t where ct: "digits_of n = c # t"
    using digits_of_nonempty [of n] by (cases "digits_of n") auto
  have "is_digit c" using digits_of_digits [of n] ct by simp
  then show ?thesis by (auto simp: ct is_digit_def)
qed

lemma scan_number_str_int:
  assumes "ends_number r"
  shows "scan_number (str_int i @ r) = Some (PyInt i, r)"
proof (cases "i < 0")
  case True
  have "scan_number ((CHR ''-'' # digits_of (nat (- i))) @ r) = Some (PyInt (- int (nat (- i))), r)"
    by (simp add: scan_number_def Let_def scan_int_digits_of [OF assms] scan_frac_end [OF assms]
        scan_exp_end [OF assms] nat_of_digits_of)
  with True show ?thesis by (simp add: str_int_def)
next
  case False
  have ne: "digits_of (nat i) @ r \<noteq> []" by (simp add: digits_of_nonempty)
  have hd: "hd (digits_of (nat i) @ r) \<noteq> CHR ''-''"
    using hd_digits_of_not_minus [of "nat i"] by (simp add: digits_of_nonempty)
  have "scan_number (digits_of (nat i) @ r) = Some (PyInt (int (nat i)), r)"
    using hd by (simp add: scan_number_def Let_def scan_int_digits_of [OF assms]
        scan_frac_end [OF assms] scan_exp_end [OF assms] nat_of_digits_of)
  with False show ?thesis by (simp add: str_int_def)
qed

lemma key_char_not_quote: "list_all key_char k \<Longrightarrow> CHR 0x22 \<notin> set k"
  by (induction k) (auto simp: key_char_def)

lemma takeWhile_key:
  "list_all key_char k \<Longrightarrow> takeWhile (\<lambda>c. c \<noteq> CHR 0x22) (k @ CHR 0x22 # r) = k"
  by (induction k) (auto simp: key_char_def)

lemma dropWhile_key:
  "list_all key_char k \<Longrightarrow> dropWhile (\<lambda>c. c \<noteq> CHR 0x22) (k @ CHR 0x22 # r) = CHR 0x22 # r"
  by (induction k) (auto simp: key_char_def)

lemma skip_ws_no_ws: "s \<noteq> [] \<Longrightarrow> \<not> json_ws (hd s) \<Longrightarrow> skip_ws s = s"
  by (cases s) (auto simp: skip_ws_def)

lemma str_int_nonempty: "str_int i \<noteq> []"
  by (simp add: str_int_def digits_of_nonempty)

lemma hd_str_int_not_ws: "\<not> json_ws (hd (str_int i))"
proof (cases "i < 0")
  case True
  then show ?thesis by (simp add: str_int_def json_ws_def)
next
  case False
  obtain c t where ct: "digits_of (nat i) = c # t"
    using digits_of_nonempty [of "nat i"] by (cases "digits_of (nat i)") auto
  have "is_digit c" using digits_of_digits [of "nat i"] ct by simp
  then have "\<not> json_ws c" by (auto simp: is_digit_def json_ws_def)
  with False ct show ?thesis by (simp add: str_int_def)
qed

lemma skip_ws_str_int: "skip_ws (CHR '' '' # str_int i @ r) = str_int i @ r"
proof -
  have "skip_ws (CHR '' '' # str_int i @ r) = skip_ws (str_int i @ r)"
    by (simp add: skip_ws_def json_ws_def)
  also have "\<dots> = str_int i @ r"
    using str_int_nonempty [of i] hd_str_int_not_ws [of i] by (intro skip_ws_no_ws) simp_all
  finally show ?thesis .
qed

lemma parse_members_last:
  assumes "list_all key_char k"
  shows "parse_members acc (k @ CHR 0x22 # '': '' @ str_int i @ ''}'' @ rest)
         = Some (dict_set acc k (PyInt i), rest)"
proof -
  have en: "ends_number (''}'' @ rest)" by (simp add: ends_number_def)
  have sw: "skip_ws (''}'' @ rest) = ''}'' @ rest" by (simp add: skip_ws_def json_ws_def)
  have colon: "skip_ws ('': '' @ str_int i @ ''}'' @ rest) = CHR '':'' # CHR '' '' # str_int i @ ''}'' @ rest"
    by (simp add: skip_ws_def json_ws_def)
  show ?thesis
    apply (subst parse_members.simps)
    apply (simp only: takeWhile_key [OF assms] dropWhile_key [OF assms] Let_def)
    apply (simp add: assms del: append.simps)
    apply (simp only: colon list.case)
    apply (simp add: skip_ws_str_int scan_number_str_int [OF en] del: append.simps)
    apply (simp add: skip_ws_def json_ws_def)
    done
qed

lemma parse_members_next:
  assumes "list_all key_char k"
  shows "parse_members acc (k @ CHR 0x22 # '': '' @ str_int i @ '', '' @ CHR 0x22 # nxt)
         = parse_members (dict_set acc k (PyInt i)) nxt"
proof -
  have en: "ends_number ('', '' @ CHR 0x22 # nxt)" by (simp add: ends_number_def)
  have sw: "skip_ws ('', '' @ CHR 0x22 # nxt) = '', '' @ CHR 0x22 # nxt"
    by (simp add: skip_ws_def json_ws_def)
  have sw2: "skip_ws (CHR '' '' # CHR 0x22 # nxt) = CHR 0x22 # nxt"
    by (simp add: skip_ws_def json_ws_def)
  have colon: "skip_ws ('': '' @ str_int i @ '', '' @ CHR 0x22 # nxt)
               = CHR '':'' # CHR '' '' # str_int i @ '', '' @ CHR 0x22 # nxt"
    by (simp add: skip_ws_def json_ws_def)
  show ?thesis
    apply (subst parse_members.simps)
    apply (simp only: takeWhile_key [OF assms] dropWhile_key [OF assms] Let_def)
    apply (simp add: assms del: append.simps)
    apply (simp only: colon list.case)
    apply (simp add: skip_ws_str_int scan_number_str_int [OF en] del: append.simps)
    apply (simp add: skip_ws_def json_ws_def)
    done
qed

lemma dict_set_fresh: "k \<notin> fst ` set acc \<Longrightarrow> dict_set acc k v = acc @ [(k, v)]"
  by (induction acc) auto

lemma set_all_distinct: "distinct (map fst (acc @ d)) \<Longrightarrow> set_all acc d = acc @ d"
proof (induction d arbitrary: acc)
  case Nil
  then show ?case by (simp add: set_all_def)
next
  case (Cons kv d)
  have fresh: "fst kv \<notin> fst ` set acc" using Cons.prems by auto
  have "set_all acc (kv # d) = set_all (dict_set acc (fst kv) (snd kv)) d"
    by (simp add: set_all_def)
  also have "\<dots> = set_all (acc @ [kv]) d"
    using fresh by (simp add: dict_set_fresh)
  also have "\<dots> = (acc @ [kv]) @ d"
    using Cons.prems by (intro Cons.IH) simp
  finally show ?case by simp
qed

lemma json_dumps_example:
  "json_dumps [(''last_skew_ns'', PyInt (- 42))]
   = ''{'' @ [CHR 0x22] @ ''last_skew_ns'' @ [CHR 0x22] @ '': -42}'' \<and>
   json_dumps [] = ''{}''"
  by code_simp

lemma dumps_member_int:
  "dumps_member (k, PyInt i) = CHR 0x22 # k @ CHR 0x22 # '': '' @ str_int i"
  by (simp add: dumps_member_def str_num_def)

lemma valid_member_int: "valid_member kv \<Longrightarrow> \<exists>i. snd kv = PyInt i"
  by (auto simp: valid_member_def split: num.splits)

lemma join_members_hd:
  "valid_member kv \<Longrightarrow> \<exists>t. join '', '' (map dumps_member (kv # d)) = CHR 0x22 # t"
  by (cases d; cases kv) (auto simp: dumps_member_def)

lemma parse_members_join:
  assumes "list_all valid_member d" and "d \<noteq> []"
  shows "parse_members acc (tl (join '', '' (map dumps_member d)) @ ''}'' @ rest)
         = Some (set_all acc d, rest)"
  using assms
proof (induction d arbitrary: acc)
  case Nil
  then show ?case by simp
next
  case (Cons kv d)
  obtain k i where kv: "kv = (k, PyInt i)"
    using valid_member_int [of kv] Cons.prems(1) by (cases kv) auto
  have key: "list_all key_char k"
    using Cons.prems(1) by (simp add: kv valid_member_def)
  show ?case
  proof (cases d)
    case Nil
    have "parse_members acc (tl (join '', '' (map dumps_member [kv])) @ ''}'' @ rest)
          = parse_members acc (k @ CHR 0x22 # '': '' @ str_int i @ ''}'' @ rest)"
      by (simp add: kv dumps_member_int)
    also have "\<dots> = Some (dict_set acc k (PyInt i), rest)"
      using key by (rule parse_members_last)
    finally show ?thesis by (simp add: Nil kv set_all_def)
  next
    case (Cons kv' d')
    have valid': "list_all valid_member d" "d \<noteq> []" "valid_member kv'"
      using Cons.prems(1) Cons by simp_all
    obtain t where t: "join '', '' (map dumps_member d) = CHR 0x22 # t"
      using join_members_hd [OF valid'(3), of d'] Cons by auto
    have "tl (join '', '' (map dumps_member (kv # d))) @ ''}'' @ rest
          = k @ CHR 0x22 # '': '' @ str_int i @ '', '' @ CHR 0x22 # (t @ ''}'' @ rest)"
      using t by (simp add: Cons kv dumps_member_int)
    then have "parse_members acc (tl (join '', '' (map dumps_member (kv # d))) @ ''}'' @ rest)
          = parse_members (dict_set acc k (PyInt i)) (t @ ''}'' @ rest)"
      using parse_members_next [OF key] by simp
    also have "t = tl (join '', '' (map dumps_member d))"
      using t by simp
    also have "parse_members (dict_set acc k (PyInt i))
                 (tl (join '', '' (map dumps_member d)) @ ''}'' @ rest)
          = Some (set_all (dict_set acc k (PyInt i)) d, rest)"
      using valid'(1,2) by (rule Cons.IH)
    finally show ?thesis by (simp add: kv set_all_def)
  qed
qed

lemma json_roundtrip:
  assumes "valid_memo d"
  shows "json_loads (json_dumps d) = Inr d"
proof (cases d)
  case Nil
  then show ?thesis
    by (simp add: json_loads_def json_dumps_def skip_ws_def json_ws_def)
next
  case (Cons kv d')
  have valid: "list_all valid_member d" "distinct (map fst d)"
    using assms by (simp_all add: valid_memo_def)
  have ne: "d \<noteq> []" using Cons by simp
  obtain t where t: "join '', '' (map dumps_member d) = CHR 0x22 # t"
    using join_members_hd [of kv d'] valid(1) Cons by auto
  have p: "parse_members [] (t @ ''}'') = Some (d, [])"
  proof -
    have "parse_members [] (tl (join '', '' (map dumps_member d)) @ ''}'' @ [])
          = Some (set_all [] d, [])"
      using valid(1) ne by (rule parse_members_join)
    moreover have "set_all [] d = d"
      using set_all_distinct [of "[]" d] valid(2) by simp
    ultimately show ?thesis using t by simp
  qed
  have "json_dumps d = CHR ''{'' # CHR 0x22 # t @ ''}''"
    by (simp add: json_dumps_def t)
  then show ?thesis
    by (simp add: json_loads_def skip_ws_def json_ws_def p)
qed

section \<open>Properties of the memo store\<close>

lemma apply_op_other: "op_on p op \<Longrightarrow> q \<noteq> p \<Longrightarrow> apply_op f op q = f q"
  by (cases op) (auto simp: op_on_def)

lemma run_ops_other:
  "list_all (op_on p) ops \<Longrightarrow> q \<noteq> p \<Longrightarrow> run_ops ops f q = f q"
  unfolding run_ops_def
  by (induction ops arbitrary: f) (auto simp: apply_op_other)

lemma write_ops_on: "list_all (op_on p) (write_ops p body)"
  by (simp add: write_ops_def op_on_def list_all_iff)

lemma take_write_ops_on: "list_all (op_on p) (take k (write_ops p body))"
  using write_ops_on [of p body] by (auto simp: list_all_iff dest: in_set_takeD)

lemma run_writes:
  "g p = Some old \<Longrightarrow> foldl apply_op g (map (\<lambda>c. Write p [c]) body) = g(p \<mapsto> old @ body)"
proof (induction body arbitrary: g old)
  case Nil
  then show ?case by (simp add: fun_upd_idem)
next
  case (Cons c body)
  have step: "apply_op g (Write p [c]) = g(p \<mapsto> old @ [c])"
    using Cons.prems by simp
  have "foldl apply_op g (map (\<lambda>c. Write p [c]) (c # body))
        = foldl apply_op (g(p \<mapsto> old @ [c])) (map (\<lambda>c. Write p [c]) body)"
    by (simp only: list.map foldl_Cons step)
  also have "\<dots> = (g(p \<mapsto> old @ [c]))(p \<mapsto> (old @ [c]) @ body)"
    by (rule Cons.IH) simp
  also have "\<dots> = g(p \<mapsto> old @ c # body)"
    by simp
  finally show ?case .
qed

lemma run_write_ops: "run_ops (write_ops p body) f = f(p \<mapsto> body)"
  using run_writes [of "f(p \<mapsto> [])" p "[]" body]
  by (simp add: run_ops_def write_ops_def)

lemma run_take_write_ops:
  "run_ops (take k (write_ops p body)) f =
     (if k = 0 then f else f(p \<mapsto> take (k - 1) body))"
proof (cases k)
  case 0
  then show ?thesis by (simp add: run_ops_def)
next
  case (Suc j)
  have "take (Suc j) (write_ops p body) = write_ops p (take j body)"
    by (simp add: write_ops_def take_map)
  then show ?thesis
    using Suc by (simp add: run_write_ops)
qed

lemma tmp_neq: "MEMO_FILE cfg @ ''.tmp'' \<noteq> MEMO_FILE cfg"
  by simp

lemma length_save_memo_ops: "length (save_memo_ops cfg d) = length (json_dumps d) + 2"
  by (simp add: save_memo_ops_def write_ops_def Let_def)

lemma run_save_memo_ops:
  "run_ops (save_memo_ops cfg d) f (MEMO_FILE cfg) = Some (json_dumps d)"
  by (simp add: save_memo_ops_def Let_def run_ops_def run_write_ops [unfolded run_ops_def])

lemma run_take_save_memo_ops:
  assumes "k < length (save_memo_ops cfg d)"
  shows "run_ops (take k (save_memo_ops cfg d)) f (MEMO_FILE cfg) = f (MEMO_FILE cfg)"
proof -
  have "k \<le> length (write_ops (MEMO_FILE cfg @ ''.tmp'') (json_dumps d))"
    using assms by (simp add: save_memo_ops_def Let_def write_ops_def)
  then have "take k (save_memo_ops cfg d) = take k (write_ops (MEMO_FILE cfg @ ''.tmp'') (json_dumps d))"
    by (simp add: save_memo_ops_def Let_def)
  then show ?thesis
    using run_ops_other [OF take_write_ops_on, of "MEMO_FILE cfg" "MEMO_FILE cfg @ ''.tmp''"]
    by simp
qed

lemma load_memo_cong:
  "files f (MEMO_FILE cfg) = files g (MEMO_FILE cfg) \<Longrightarrow> readable f = readable g \<Longrightarrow>
   load_memo cfg f = load_memo cfg g"
  by (auto simp: load_memo_def split: option.splits)

text \<open>
  C4, as stated, on the save of \<^verbatim>\<open>dispatcher.py\<close> and \<^verbatim>\<open>dispatchService.py\<close>, which opens the
  memo file itself for writing: stopped after the first step, the file is empty, and the
  next load does not return the previous memo (the float 5.0) but raises.
\<close>

theorem write_in_place_counterexample:
  "load_last_skew_dispatcher cfg_win (fs_with cfg_win (json_dumps [(''last_skew_ns'', PyFloat ''5.0'')])) = Inr (PyFloat ''5.0'') \<and>
   load_last_skew_dispatcher cfg_win
     ((fs_with cfg_win (json_dumps [(''last_skew_ns'', PyFloat ''5.0'')]))
        \<lparr>files := run_ops (take 1 (write_ops (MEMO_FILE cfg_win) (json_dumps [(''last_skew_ns'', PyFloat ''7.0'')])))
                    (files (fs_with cfg_win (json_dumps [(''last_skew_ns'', PyFloat ''5.0'')])))\<rparr>)
   = Inl JSONDecodeError"
  by code_simp

text \<open>
  C4, amended. In \<^verbatim>\<open>driftMonitorDual.py\<close>, \<^verbatim>\<open>save_memo\<close> writes the serialized memo to
  the temporary path \<^verbatim>\<open>memo.json.tmp\<close> and then replaces the memo file in one step. If the
  save is stopped after any number \<open>k\<close> of its steps short of all of them, that is before
  the replace has run, the memo file is what it was, and \<^verbatim>\<open>load_memo\<close> returns what it
  returned before the save began; once all steps have run, the memo file holds the whole
  new text.
\<close>

theorem save_memo_interrupted:
  assumes "k < length (save_memo_ops cfg d)"
  shows "run_ops (take k (save_memo_ops cfg d)) (files f) (MEMO_FILE cfg) = files f (MEMO_FILE cfg) \<and>
         load_memo cfg (f\<lparr>files := run_ops (take k (save_memo_ops cfg d)) (files f)\<rparr>) = load_memo cfg f \<and>
         run_ops (save_memo_ops cfg d) (files f) (MEMO_FILE cfg) = Some (json_dumps d)"
proof -
  have same: "run_ops (take k (save_memo_ops cfg d)) (files f) (MEMO_FILE cfg) = files f (MEMO_FILE cfg)"
    using assms by (rule run_take_save_memo_ops)
  have "load_memo cfg (f\<lparr>files := run_ops (take k (save_memo_ops cfg d)) (files f)\<rparr>) = load_memo cfg f"
    by (rule load_memo_cong) (simp_all add: same)
  with same show ?thesis by (simp add: run_save_memo_ops)
qed

theorem save_memo_interrupted_witness:
  "(3::nat) < length (save_memo_ops cfg_win [(''last_skew_ns'', PyInt 7)]) \<and>
   load_memo cfg_win
     ((fs_with cfg_win (json_dumps [(''last_skew_ns'', PyInt 5)]))
        \<lparr>files := run_ops (take 3 (save_memo_ops cfg_win [(''last_skew_ns'', PyInt 7)]))
                    (files (fs_with cfg_win (json_dumps [(''last_skew_ns'', PyInt 5)])))\<rparr>)
   = ([(''last_skew_ns'', PyInt 5)], [])"
proof -
  have h: "(3::nat) < length (save_memo_ops cfg_win [(''last_skew_ns'', PyInt 7)])"
    by (simp add: length_save_memo_ops json_dumps_def)
  have l: "load_memo cfg_win (fs_with cfg_win (json_dumps [(''last_skew_ns'', PyInt 5)]))
           = ([(''last_skew_ns'', PyInt 5)], [])"
    by code_simp
  show ?thesis
    using h l save_memo_interrupted [OF h, of "fs_with cfg_win (json_dumps [(''last_skew_ns'', PyInt 5)])"]
    by simp
qed

text \<open>
  C9. For every valid memo \<open>d\<close>, on a memo file that can be written and read: after
  \<^verbatim>\<open>save_memo(d)\<close>, \<^verbatim>\<open>load_memo()\<close> returns \<open>d\<close> and logs nothing, and a new process started on
  the file system that the save left has \<open>d\<close> as its memo; the same holds of \<^verbatim>\<open>save_memo\<close> and
  \<^verbatim>\<open>load_memo\<close> of \<^verbatim>\<open>driftMonitor.py\<close>.
\<close>

theorem memo_roundtrip:
  assumes "valid_memo d" and "readable (fs st)" and "writable (fs st)"
  shows "load_memo cfg (fs (save_memo cfg d st)) = (d, []) \<and>
         memo (restart cfg (save_memo cfg d st)) = d \<and>
         (\<exists>f'. save_memo_monitor cfg d (fs st) = Inr f' \<and> load_memo_monitor cfg f' = d)"
proof -
  have rt: "json_loads (json_dumps d) = Inr d"
    using assms(1) by (rule json_roundtrip)
  have "load_memo cfg (fs (save_memo cfg d st)) = (d, [])"
    using assms(2,3) by (simp add: save_memo_def load_memo_def run_save_memo_ops rt)
  moreover have "load_memo_monitor cfg
      ((fs st)\<lparr>files := run_ops (write_ops (MEMO_FILE cfg) (json_dumps d)) (files (fs st))\<rparr>) = d"
    using assms(2) by (simp add: load_memo_monitor_def run_write_ops rt)
  ultimately show ?thesis
    using assms(3) by (simp add: save_memo_monitor_def restart_def)
qed

theorem memo_roundtrip_witness:
  "valid_memo [(''last_skew_ns'', PyInt (- 9066800))] \<and>
   load_memo cfg_win (fs (save_memo cfg_win [(''last_skew_ns'', PyInt (- 9066800))] (st_empty cfg_win)))
     = ([(''last_skew_ns'', PyInt (- 9066800))], []) \<and>
   memo (restart cfg_win (save_memo cfg_win [(''last_skew_ns'', PyInt (- 9066800))] (st_empty cfg_win)))
     = [(''last_skew_ns'', PyInt (- 9066800))]"
proof -
  have v: "valid_memo [(''last_skew_ns'', PyInt (- 9066800))]"
    by (simp add: valid_memo_def valid_member_def key_char_def int64_def)
  show ?thesis
    using v memo_roundtrip [OF v, of "st_empty cfg_win" cfg_win]
    by (simp add: st_empty_def)
qed

lemma load_memo_default:
  "files f (MEMO_FILE cfg) = None \<or> \<not> readable f \<or>
   (\<exists>body e. files f (MEMO_FILE cfg) = Some body \<and> json_loads body = Inl e)
   \<Longrightarrow> fst (load_memo cfg f) = [] \<and> load_memo_monitor cfg f = []"
  by (auto simp: load_memo_def load_memo_monitor_def split: option.splits)

text \<open>
  C5, at a memo file that is empty (as a stopped write in place leaves it): the text is
  not JSON, the load of \<^verbatim>\<open>dispatcher.py\<close> and \<^verbatim>\<open>dispatchService.py\<close> raises, and so does
  \<^verbatim>\<open>drift_correction_windows\<close>, which has no handler around it; \<^verbatim>\<open>load_memo\<close> of
  \<^verbatim>\<open>driftMonitorDual.py\<close> and of \<^verbatim>\<open>driftMonitor.py\<close> return the empty dictionary there.
\<close>

theorem dispatcher_corrupt_memo_raises:
  "json_loads [] = Inl JSONDecodeError \<and>
   load_last_skew_dispatcher cfg_win (fs_with cfg_win []) = Inl JSONDecodeError \<and>
   (case drift_correction_windows_dispatcher 1000 cfg_win floats_plain
           (env_out ''15:10:00, -0.0090668s'') (st_memo cfg_win []) of
      Raised x \<Rightarrow> x = JSONDecodeError | Returned st' \<Rightarrow> False | Hung \<Rightarrow> False) \<and>
   (case drift_correction_windows_dispatcher (PRECISION_THRESHOLD_NS_service Fast) cfg_win
           floats_plain (env_out ''15:10:00, -0.0090668s'') (st_memo cfg_win []) of
      Raised x \<Rightarrow> x = JSONDecodeError | Returned st' \<Rightarrow> False | Hung \<Rightarrow> False) \<and>
   load_memo cfg_win (fs_with cfg_win []) = ([], [''[WARN] Could not load memo: JSONDecodeError'']) \<and>
   load_memo_monitor cfg_win (fs_with cfg_win []) = []"
  by code_simp

section \<open>Properties of commands and probes\<close>

lemma run_cmd_frame:
  "memo (snd (run_cmd e cmd t st)) = memo st \<and>
   fs (snd (run_cmd e cmd t st)) = fs st \<and>
   skew_history (snd (run_cmd e cmd t st)) = skew_history st \<and>
   cmds (snd (run_cmd e cmd t st)) = cmds st @ [cmd]"
  by (simp add: run_cmd_def Let_def log_line_def split: proc_outcome.splits)

lemma run_cmd_logs:
  "\<exists>ls. logs (snd (run_cmd e cmd t st)) = logs st @ ls \<and>
        list_all (\<lambda>l. startswith l ''[CMD-ERR]'') ls"
proof (cases "proc e cmd (Some t)")
  case (Completed out err)
  show ?thesis
  proof (cases "strip err = []")
    case True
    with Completed have "logs (snd (run_cmd e cmd t st)) = logs st @ []"
      by (simp add: run_cmd_def Let_def)
    then show ?thesis by (intro exI [of _ "[]"]) simp
  next
    case False
    with Completed have "logs (snd (run_cmd e cmd t st))
        = logs st @ [''[CMD-ERR] '' @ cmd @ '' => '' @ strip err]"
      by (simp add: run_cmd_def Let_def log_line_def)
    then show ?thesis
      by (intro exI [of _ "[''[CMD-ERR] '' @ cmd @ '' => '' @ strip err]"])
        (simp add: startswith_def)
  qed
next
  case TimedOut
  then have "logs (snd (run_cmd e cmd t st)) = logs st @ [''[CMD-ERR] Timeout running: '' @ cmd]"
    by (simp add: run_cmd_def Let_def log_line_def)
  then show ?thesis
    by (intro exI [of _ "[''[CMD-ERR] Timeout running: '' @ cmd]"]) (simp add: startswith_def)
next
  case (Failed msg)
  then have "logs (snd (run_cmd e cmd t st))
      = logs st @ [''[CMD-ERR] Exception running: '' @ cmd @ '' => '' @ msg]"
    by (simp add: run_cmd_def Let_def log_line_def)
  then show ?thesis
    by (intro exI [of _ "[''[CMD-ERR] Exception running: '' @ cmd @ '' => '' @ msg]"])
      (simp add: startswith_def)
qed

lemma run_cmd_full_returns:
  assumes "\<forall>line. lg line = None"
  shows "run_cmd_full lg e cmd (Some n) st
         = (Returned (fst (run_cmd e cmd n st)), snd (run_cmd e cmd n st))"
  using assms
  by (simp add: run_cmd_full_def run_cmd_def handler_def log_full_def Let_def
      split: proc_outcome.splits)

lemma measure_full_returns:
  assumes "\<forall>line. lg line = None"
  shows "measure_skew_windows_stripchart_full lg conv e st
           = (Returned (fst (measure_skew_windows_stripchart conv e st)),
              snd (measure_skew_windows_stripchart conv e st))"
    and "measure_skew_windows_status_full lg conv e st
           = ((case fst (measure_skew_windows_status conv e st) of
                 Inl x \<Rightarrow> Raised x | Inr r \<Rightarrow> Returned r),
              snd (measure_skew_windows_status conv e st))"
    and "measure_skew_chrony_full lg conv e st
           = (Returned (fst (measure_skew_chrony conv e st)), snd (measure_skew_chrony conv e st))"
    and "measure_skew_ntpd_full lg conv e st
           = (Returned (fst (measure_skew_ntpd conv e st)), snd (measure_skew_ntpd conv e st))"
  by (simp_all add: run_cmd_full_returns [OF assms]
      measure_skew_windows_stripchart_full_def measure_skew_windows_stripchart_def
      measure_skew_windows_status_full_def measure_skew_windows_status_def
      measure_skew_chrony_full_def measure_skew_chrony_def
      measure_skew_ntpd_full_def measure_skew_ntpd_def
      split: prod.splits option.splits sum.splits)

lemma measure_windows_full_returns:
  assumes "\<forall>line. lg line = None"
  shows "measure_skew_windows_full lg conv e st
           = ((case fst (measure_skew_windows conv e st) of
                 Inl x \<Rightarrow> Raised x | Inr r \<Rightarrow> Returned r),
              snd (measure_skew_windows conv e st))"
  by (simp add: measure_skew_windows_full_def measure_skew_windows_def
      measure_full_returns [OF assms] split: prod.splits option.splits sum.splits)

lemma run_cmd_full_raised:
  assumes "fst (run_cmd_full lg e cmd t st) = Raised x"
  shows "(proc e cmd t = TimedOut \<and> t \<noteq> None \<and> lg (''[CMD-ERR] Timeout running: '' @ cmd) = Some x) \<or>
         (\<exists>msg. proc e cmd t = Failed msg \<and>
                lg (''[CMD-ERR] Exception running: '' @ cmd @ '' => '' @ msg) = Some x) \<or>
         (\<exists>out err y. proc e cmd t = Completed out err \<and>
                lg (''[CMD-ERR] '' @ cmd @ '' => '' @ strip err) = Some y \<and>
                lg (''[CMD-ERR] Exception running: '' @ cmd @ '' => '' @ exn_text y) = Some x)"
  using assms
  by (auto simp: run_cmd_full_def handler_def log_full_def Let_def
      split: proc_outcome.splits option.splits if_splits sum.splits)

lemma run_cmd_full_hung:
  "fst (run_cmd_full lg e cmd t st) = Hung \<longleftrightarrow> proc e cmd t = TimedOut \<and> t = None"
  by (auto simp: run_cmd_full_def handler_def log_full_def Let_def
      split: proc_outcome.splits option.splits if_splits sum.splits)

lemma run_cmd_full_timeout:
  assumes "proc e cmd (Some n) = TimedOut"
  shows "run_cmd_full lg e cmd (Some n) st =
     (case lg (''[CMD-ERR] Timeout running: '' @ cmd) of
        None \<Rightarrow> (Returned [], st\<lparr>cmds := cmds st @ [cmd],
                   logs := logs st @ [''[CMD-ERR] Timeout running: '' @ cmd]\<rparr>)
      | Some x \<Rightarrow> (Raised x, st\<lparr>cmds := cmds st @ [cmd]\<rparr>))"
  using assms
  by (simp add: run_cmd_full_def handler_def log_full_def log_line_def Let_def
      split: option.splits)

lemma run_cmd_full_failed:
  assumes "proc e cmd t = Failed msg"
  shows "run_cmd_full lg e cmd t st =
     (case lg (''[CMD-ERR] Exception running: '' @ cmd @ '' => '' @ msg) of
        None \<Rightarrow> (Returned [], st\<lparr>cmds := cmds st @ [cmd],
                   logs := logs st @ [''[CMD-ERR] Exception running: '' @ cmd @ '' => '' @ msg]\<rparr>)
      | Some x \<Rightarrow> (Raised x, st\<lparr>cmds := cmds st @ [cmd]\<rparr>))"
  using assms
  by (simp add: run_cmd_full_def handler_def log_full_def log_line_def Let_def
      split: option.splits)

lemma run_cmd_full_completed:
  assumes "proc e cmd t = Completed out err"
    and "lg (''[CMD-ERR] '' @ cmd @ '' => '' @ strip err) = None"
  shows "fst (run_cmd_full lg e cmd t st) = Returned (strip out)"
  using assms
  by (simp add: run_cmd_full_def handler_def log_full_def log_line_def Let_def)

lemma run_cmd_full_stderr_lost:
  assumes "proc e cmd t = Completed out err" and "strip err \<noteq> []"
    and "lg (''[CMD-ERR] '' @ cmd @ '' => '' @ strip err) = Some y"
    and "lg (''[CMD-ERR] Exception running: '' @ cmd @ '' => '' @ exn_text y) = None"
  shows "fst (run_cmd_full lg e cmd t st) = Returned []"
  using assms
  by (simp add: run_cmd_full_def handler_def log_full_def log_line_def Let_def)

lemma measure_full_empty:
  "(run_cmd_full lg e ''w32tm /stripchart /computer:time.windows.com /dataonly /samples:1'' (Some 10) st
      = (Returned [], st1)
    \<longrightarrow> measure_skew_windows_stripchart_full lg conv e st = (Returned None, st1)) \<and>
   (run_cmd_full lg e ''w32tm /query /status'' (Some 6) st = (Returned [], st1)
    \<longrightarrow> measure_skew_windows_status_full lg conv e st = (Returned None, st1)) \<and>
   (run_cmd_full lg e ''chronyc tracking'' (Some 6) st = (Returned [], st1)
    \<longrightarrow> measure_skew_chrony_full lg conv e st = (Returned None, st1)) \<and>
   (run_cmd_full lg e ''ntpq -c rv'' (Some 6) st = (Returned [], st1)
    \<longrightarrow> measure_skew_ntpd_full lg conv e st = (Returned None, st1))"
  by (simp add: measure_skew_windows_stripchart_full_def measure_skew_windows_status_full_def
      measure_skew_chrony_full_def measure_skew_ntpd_full_def)

lemma measure_windows_full_empty:
  assumes "run_cmd_full lg e ''w32tm /stripchart /computer:time.windows.com /dataonly /samples:1'' (Some 10) st
      = (Returned [], st1)"
    and "run_cmd_full lg e ''w32tm /query /status'' (Some 6) st1 = (Returned [], st2)"
  shows "measure_skew_windows_full lg conv e st = (Returned None, st2)"
  using assms
  by (simp add: measure_skew_windows_full_def measure_skew_windows_stripchart_full_def
      measure_skew_windows_status_full_def)

text \<open>
  C10, as stated, on \<^verbatim>\<open>run_cmd\<close> of \<^verbatim>\<open>driftMonitorDual.py\<close>: \<^verbatim>\<open>chronyc tracking\<close> is still
  running when its timeout of 6 seconds expires, and \<^verbatim>\<open>status.log\<close> cannot be written at that
  moment (the disk is full, say), so that \<^verbatim>\<open>log\<close> raises \<^verbatim>\<open>OSError\<close>. The \<^verbatim>\<open>except\<close> clause for
  the timeout calls \<^verbatim>\<open>log\<close>, and that exception leaves \<^verbatim>\<open>run_cmd\<close> and \<^verbatim>\<open>measure_skew_chrony\<close>.
  With \<^verbatim>\<open>timeout=None\<close> and \<^verbatim>\<open>log\<close> working, the same command keeps \<^verbatim>\<open>run_cmd\<close> from
  returning.
\<close>

theorem run_cmd_log_raises_counterexample:
  "proc env_timeout ''chronyc tracking'' (Some 6) = TimedOut \<and>
   fst (run_cmd_full log_failing env_timeout ''chronyc tracking'' (Some 6) (st_empty cfg_unix))
     = Raised OSError \<and>
   fst (measure_skew_chrony_full log_failing conv_none env_timeout (st_empty cfg_unix))
     = Raised OSError \<and>
   fst (run_cmd_full log_ok env_timeout ''chronyc tracking'' None (st_empty cfg_unix)) = Hung"
  by (simp add: env_timeout_def run_cmd_full_def handler_def log_full_def log_failing_def
      log_ok_def measure_skew_chrony_full_def Let_def)

text \<open>
  C10, amended. For every command, timeout and state, the only exception of class
  \<^verbatim>\<open>Exception\<close> that leaves \<^verbatim>\<open>run_cmd\<close> of \<^verbatim>\<open>driftMonitorDual.py\<close> is one that \<^verbatim>\<open>log\<close> raises
  inside an \<^verbatim>\<open>except\<close> clause (after a timeout, after a failure of the subprocess, or after
  the \<^verbatim>\<open>log\<close> of the standard error has itself raised); \<^verbatim>\<open>run_cmd\<close> fails to return exactly
  when it has no timeout and the command does not end. On a timeout and on a failure of the subprocess it calls \<^verbatim>\<open>log\<close>
  with a \<^verbatim>\<open>[CMD-ERR]\<close> line and, if that call returns, returns the empty string; when the
  command ends and the \<^verbatim>\<open>log\<close> of its standard error returns, it returns the stripped
  output; when no call of \<^verbatim>\<open>log\<close> raises and a timeout is given, it returns. Each of
  \<^verbatim>\<open>measure_skew_windows_stripchart\<close>, \<^verbatim>\<open>measure_skew_windows_status\<close>,
  \<^verbatim>\<open>measure_skew_chrony\<close> and \<^verbatim>\<open>measure_skew_ntpd\<close> returns \<^verbatim>\<open>None\<close> when \<^verbatim>\<open>run_cmd\<close> returns the
  empty string, and so does \<^verbatim>\<open>measure_skew_windows\<close> when it does for both of its commands.
\<close>

theorem run_cmd_outcomes:
  "(fst (run_cmd_full lg e cmd t st) = Raised x \<longrightarrow>
      (proc e cmd t = TimedOut \<and> t \<noteq> None \<and>
         lg (''[CMD-ERR] Timeout running: '' @ cmd) = Some x) \<or>
      (\<exists>msg. proc e cmd t = Failed msg \<and>
         lg (''[CMD-ERR] Exception running: '' @ cmd @ '' => '' @ msg) = Some x) \<or>
      (\<exists>out err y. proc e cmd t = Completed out err \<and>
         lg (''[CMD-ERR] '' @ cmd @ '' => '' @ strip err) = Some y \<and>
         lg (''[CMD-ERR] Exception running: '' @ cmd @ '' => '' @ exn_text y) = Some x)) \<and>
   (fst (run_cmd_full lg e cmd t st) = Hung \<longleftrightarrow> proc e cmd t = TimedOut \<and> t = None) \<and>
   (proc e cmd (Some n) = TimedOut \<longrightarrow>
      run_cmd_full lg e cmd (Some n) st =
        (case lg (''[CMD-ERR] Timeout running: '' @ cmd) of
           None \<Rightarrow> (Returned [], st\<lparr>cmds := cmds st @ [cmd],
                      logs := logs st @ [''[CMD-ERR] Timeout running: '' @ cmd]\<rparr>)
         | Some y \<Rightarrow> (Raised y, st\<lparr>cmds := cmds st @ [cmd]\<rparr>))) \<and>
   (proc e cmd t = Failed msg \<longrightarrow>
      run_cmd_full lg e cmd t st =
        (case lg (''[CMD-ERR] Exception running: '' @ cmd @ '' => '' @ msg) of
           None \<Rightarrow> (Returned [], st\<lparr>cmds := cmds st @ [cmd],
                      logs := logs st @ [''[CMD-ERR] Exception running: '' @ cmd @ '' => '' @ msg]\<rparr>)
         | Some y \<Rightarrow> (Raised y, st\<lparr>cmds := cmds st @ [cmd]\<rparr>))) \<and>
   (proc e cmd t = Completed out err \<and> lg (''[CMD-ERR] '' @ cmd @ '' => '' @ strip err) = None \<longrightarrow>
      fst (run_cmd_full lg e cmd t st) = Returned (strip out)) \<and>
   ((\<forall>line. lg line = None) \<longrightarrow> (\<exists>r. fst (run_cmd_full lg e cmd (Some n) st) = Returned r)) \<and>
   (run_cmd_full lg e ''w32tm /stripchart /computer:time.windows.com /dataonly /samples:1'' (Some 10) st
      = (Returned [], st1)
    \<longrightarrow> measure_skew_windows_stripchart_full lg conv e st = (Returned None, st1)) \<and>
   (run_cmd_full lg e ''w32tm /query /status'' (Some 6) st = (Returned [], st1)
    \<longrightarrow> measure_skew_windows_status_full lg conv e st = (Returned None, st1)) \<and>
   (run_cmd_full lg e ''chronyc tracking'' (Some 6) st = (Returned [], st1)
    \<longrightarrow> measure_skew_chrony_full lg conv e st = (Returned None, st1)) \<and>
   (run_cmd_full lg e ''ntpq -c rv'' (Some 6) st = (Returned [], st1)
    \<longrightarrow> measure_skew_ntpd_full lg conv e st = (Returned None, st1)) \<and>
   (run_cmd_full lg e ''w32tm /stripchart /computer:time.windows.com /dataonly /samples:1'' (Some 10) st
      = (Returned [], st1) \<and>
    run_cmd_full lg e ''w32tm /query /status'' (Some 6) st1 = (Returned [], st2)
    \<longrightarrow> measure_skew_windows_full lg conv e st = (Returned None, st2))"
proof (intro conjI impI)
  assume "fst (run_cmd_full lg e cmd t st) = Raised x"
  then show "(proc e cmd t = TimedOut \<and> t \<noteq> None \<and>
         lg (''[CMD-ERR] Timeout running: '' @ cmd) = Some x) \<or>
      (\<exists>msg. proc e cmd t = Failed msg \<and>
         lg (''[CMD-ERR] Exception running: '' @ cmd @ '' => '' @ msg) = Some x) \<or>
      (\<exists>out err y. proc e cmd t = Completed out err \<and>
         lg (''[CMD-ERR] '' @ cmd @ '' => '' @ strip err) = Some y \<and>
         lg (''[CMD-ERR] Exception running: '' @ cmd @ '' => '' @ exn_text y) = Some x)"
    by (rule run_cmd_full_raised)
next
  show "fst (run_cmd_full lg e cmd t st) = Hung \<longleftrightarrow> proc e cmd t = TimedOut \<and> t = None"
    by (rule run_cmd_full_hung)
next
  assume "proc e cmd (Some n) = TimedOut"
  then show "run_cmd_full lg e cmd (Some n) st =
        (case lg (''[CMD-ERR] Timeout running: '' @ cmd) of
           None \<Rightarrow> (Returned [], st\<lparr>cmds := cmds st @ [cmd],
                      logs := logs st @ [''[CMD-ERR] Timeout running: '' @ cmd]\<rparr>)
         | Some y \<Rightarrow> (Raised y, st\<lparr>cmds := cmds st @ [cmd]\<rparr>))"
    by (rule run_cmd_full_timeout)
next
  assume "proc e cmd t = Failed msg"
  then show "run_cmd_full lg e cmd t st =
        (case lg (''[CMD-ERR] Exception running: '' @ cmd @ '' => '' @ msg) of
           None \<Rightarrow> (Returned [], st\<lparr>cmds := cmds st @ [cmd],
                      logs := logs st @ [''[CMD-ERR] Exception running: '' @ cmd @ '' => '' @ msg]\<rparr>)
         | Some y \<Rightarrow> (Raised y, st\<lparr>cmds := cmds st @ [cmd]\<rparr>))"
    by (rule run_cmd_full_failed)
next
  assume "proc e cmd t = Completed out err \<and> lg (''[CMD-ERR] '' @ cmd @ '' => '' @ strip err) = None"
  then show "fst (run_cmd_full lg e cmd t st) = Returned (strip out)"
    using run_cmd_full_completed by blast
next
  assume "\<forall>line. lg line = None"
  then show "\<exists>r. fst (run_cmd_full lg e cmd (Some n) st) = Returned r"
    by (simp add: run_cmd_full_returns)
next
  assume "run_cmd_full lg e ''w32tm /stripchart /computer:time.windows.com /dataonly /samples:1'' (Some 10) st
      = (Returned [], st1) \<and>
    run_cmd_full lg e ''w32tm /query /status'' (Some 6) st1 = (Returned [], st2)"
  then show "measure_skew_windows_full lg conv e st = (Returned None, st2)"
    using measure_windows_full_empty by blast
qed (use measure_full_empty [of lg e st st1 conv] in simp_all)

theorem run_cmd_outcomes_witness:
  "proc env_timeout ''chronyc tracking'' (Some 6) = TimedOut \<and>
   log_ok ''[CMD-ERR] Timeout running: chronyc tracking'' = None \<and>
   fst (run_cmd_full log_ok env_timeout ''chronyc tracking'' (Some 6) (st_empty cfg_unix))
     = Returned [] \<and>
   logs (snd (run_cmd_full log_ok env_timeout ''chronyc tracking'' (Some 6) (st_empty cfg_unix)))
     = [''[CMD-ERR] Timeout running: chronyc tracking''] \<and>
   fst (measure_skew_chrony_full log_ok conv_none env_timeout (st_empty cfg_unix)) = Returned None \<and>
   log_failing ''[CMD-ERR] Timeout running: chronyc tracking'' = Some OSError \<and>
   fst (run_cmd_full log_failing env_timeout ''chronyc tracking'' (Some 6) (st_empty cfg_unix))
     = Raised OSError"
proof -
  let ?st = "st_empty cfg_unix"
  let ?st1 = "?st\<lparr>cmds := cmds ?st @ [''chronyc tracking''],
                   logs := logs ?st @ [''[CMD-ERR] Timeout running: chronyc tracking'']\<rparr>"
  have t: "proc env_timeout ''chronyc tracking'' (Some 6) = TimedOut"
    by (simp add: env_timeout_def)
  have ok: "log_ok ''[CMD-ERR] Timeout running: chronyc tracking'' = None"
    by (simp add: log_ok_def)
  have no: "log_failing ''[CMD-ERR] Timeout running: chronyc tracking'' = Some OSError"
    by (simp add: log_failing_def)
  have r: "run_cmd_full log_ok env_timeout ''chronyc tracking'' (Some 6) ?st = (Returned [], ?st1)"
    using t ok
      run_cmd_outcomes [of log_ok env_timeout "''chronyc tracking''" "Some 6" ?st _ 6]
    by simp
  have m: "measure_skew_chrony_full log_ok conv_none env_timeout ?st = (Returned None, ?st1)"
    using r run_cmd_outcomes [of log_ok env_timeout _ _ ?st _ _ _ _ _ ?st1 conv_none]
    by simp
  have x: "run_cmd_full log_failing env_timeout ''chronyc tracking'' (Some 6) ?st
           = (Raised OSError, ?st\<lparr>cmds := cmds ?st @ [''chronyc tracking'']\<rparr>)"
    using t no
      run_cmd_outcomes [of log_failing env_timeout "''chronyc tracking''" "Some 6" ?st _ 6]
    by simp
  show ?thesis
    using t ok no r m x by (simp add: st_empty_def)
qed

lemma chrony_scan_first:
  "list_all (\<lambda>l. \<not> contains ''Last offset'' l) pre \<Longrightarrow> contains ''Last offset'' l \<Longrightarrow>
   chrony_scan conv (pre @ l # post)
     = (case chrony_value l of
          None \<Rightarrow> None
        | Some v \<Rightarrow> (case conv v of Inl x \<Rightarrow> None | Inr skew_ns \<Rightarrow> Some skew_ns))"
  by (induction pre) simp_all

text \<open>
  C8, as stated, on \<^verbatim>\<open>measure_skew_chrony\<close>: of two lines that contain \<^verbatim>\<open>Last offset\<close>, the
  sample is that of the first (0.1 s), not of the last (0.2 s).
\<close>

theorem chrony_first_line_counterexample:
  "contains ''Last offset'' ''Last offset : 0.1 seconds'' \<and>
   contains ''Last offset'' ''Last offset : 0.2 seconds'' \<and>
   splitlines (''Last offset : 0.1 seconds'' @ [CHR 0x0A] @ ''Last offset : 0.2 seconds'')
     = [''Last offset : 0.1 seconds'', ''Last offset : 0.2 seconds''] \<and>
   chrony_value ''Last offset : 0.2 seconds'' = Some ''0.2'' \<and>
   fst (measure_skew_chrony conv_table
          (env_out (''Last offset : 0.1 seconds'' @ [CHR 0x0A] @ ''Last offset : 0.2 seconds''))
          (st_empty cfg_unix))
     = Some 100000000"
  by code_simp

text \<open>
  C8, amended. When several lines of the probe output match: the stripchart parser of
  \<^verbatim>\<open>driftMonitorDual.py\<close> and the parser of \<^verbatim>\<open>dispatcher.py\<close> and \<^verbatim>\<open>dispatchService.py\<close> take
  the last line that contains a comma, and what reaches the conversion is the field after
  its comma; \<^verbatim>\<open>measure_skew_chrony\<close> takes the first line that contains \<^verbatim>\<open>Last offset\<close>, and
  its result is that line's alone.
\<close>

theorem parsers_line_choice:
  "(filter (\<lambda>l. CHR '','' \<in> set l) (splitlines out) = ls @ [l] \<longrightarrow>
      stripchart_secs_text out
        = (case split_once CHR '','' (strip l) of
             [a, b] \<Rightarrow> Some (strip (rstrip_chars ''s'' (strip b)))
           | _ \<Rightarrow> None)) \<and>
   (filter (\<lambda>l. CHR '','' \<in> set l) (splitlines out) = ls @ [l] \<longrightarrow>
      skew_text_dispatcher out
        = (case split_all CHR '','' l of
             a # b # rest \<Rightarrow> Some (replace_char CHR ''s'' [] (strip b))
           | _ \<Rightarrow> None)) \<and>
   (list_all (\<lambda>l. \<not> contains ''Last offset'' l) pre \<and> contains ''Last offset'' line \<longrightarrow>
      chrony_scan conv (pre @ line # post)
        = (case chrony_value line of
             None \<Rightarrow> None
           | Some v \<Rightarrow> (case conv v of Inl x \<Rightarrow> None | Inr skew_ns \<Rightarrow> Some skew_ns)))"
  by (simp add: stripchart_secs_text_def skew_text_dispatcher_def Let_def chrony_scan_first)

theorem parsers_line_choice_witness:
  "filter (\<lambda>l. CHR '','' \<in> set l)
     (splitlines (''15:10:00, 0.1s'' @ [CHR 0x0A] @ ''15:10:02, 0.2s''))
     = [''15:10:00, 0.1s''] @ [''15:10:02, 0.2s''] \<and>
   stripchart_secs_text (''15:10:00, 0.1s'' @ [CHR 0x0A] @ ''15:10:02, 0.2s'') = Some ''0.2'' \<and>
   skew_text_dispatcher (''15:10:00, 0.1s'' @ [CHR 0x0A] @ ''15:10:02, 0.2s'') = Some ''0.2'' \<and>
   list_all (\<lambda>l. \<not> contains ''Last offset'' l) [''Reference ID : 0''] \<and>
   contains ''Last offset'' ''Last offset : 0.1 seconds'' \<and>
   chrony_scan conv_table ([''Reference ID : 0''] @ ''Last offset : 0.1 seconds'' # [''Last offset : 0.2 seconds''])
     = Some 100000000"
proof -
  have f: "filter (\<lambda>l. CHR '','' \<in> set l)
     (splitlines (''15:10:00, 0.1s'' @ [CHR 0x0A] @ ''15:10:02, 0.2s''))
     = [''15:10:00, 0.1s''] @ [''15:10:02, 0.2s'']"
    by code_simp
  have c: "list_all (\<lambda>l. \<not> contains ''Last offset'' l) [''Reference ID : 0''] \<and>
           contains ''Last offset'' ''Last offset : 0.1 seconds''"
    by code_simp
  have v: "(case split_once CHR '','' (strip ''15:10:02, 0.2s'') of
             [a, b] \<Rightarrow> Some (strip (rstrip_chars ''s'' (strip b)))
           | _ \<Rightarrow> None) = Some ''0.2''"
    by code_simp
  have w: "(case split_all CHR '','' ''15:10:02, 0.2s'' of
             a # b # rest \<Rightarrow> Some (replace_char CHR ''s'' [] (strip b))
           | _ \<Rightarrow> None) = Some ''0.2''"
    by code_simp
  have x: "(case chrony_value ''Last offset : 0.1 seconds'' of
          None \<Rightarrow> None
        | Some v \<Rightarrow> (case conv_table v of Inl x \<Rightarrow> None | Inr skew_ns \<Rightarrow> Some skew_ns))
        = Some 100000000"
    by code_simp
  show ?thesis
    using f c v w x
      parsers_line_choice [where out = "''15:10:00, 0.1s'' @ [CHR 0x0A] @ ''15:10:02, 0.2s''"
        and ls = "[''15:10:00, 0.1s'']" and l = "''15:10:02, 0.2s''"
        and pre = "[''Reference ID : 0'']" and line = "''Last offset : 0.1 seconds''"
        and conv = conv_table and post = "[''Last offset : 0.2 seconds'']"]
    by simp
qed

section \<open>Properties of the dispatch loop\<close>

lemma snd_measure_stripchart:
  "snd (measure_skew_windows_stripchart conv e st)
   = snd (run_cmd e ''w32tm /stripchart /computer:time.windows.com /dataonly /samples:1'' 10 st)"
  by (simp add: measure_skew_windows_stripchart_def split: prod.splits option.splits sum.splits)

lemma snd_measure_status:
  "snd (measure_skew_windows_status conv e st) = snd (run_cmd e ''w32tm /query /status'' 6 st)"
  by (simp add: measure_skew_windows_status_def split: prod.splits)

lemma snd_measure_chrony:
  "snd (measure_skew_chrony conv e st) = snd (run_cmd e ''chronyc tracking'' 6 st)"
  by (simp add: measure_skew_chrony_def split: prod.splits)

lemma snd_measure_ntpd:
  "snd (measure_skew_ntpd conv e st) = snd (run_cmd e ''ntpq -c rv'' 6 st)"
  by (simp add: measure_skew_ntpd_def split: prod.splits)

lemma only_probed_refl: "only_probed st st"
  by (simp add: only_probed_def)

lemma only_probed_run_cmd:
  assumes "only_probed st st1"
    and "cmd \<in> set probe_commands"
  shows "only_probed st (snd (run_cmd e cmd t st1))"
proof -
  from assms(1) obtain probes ls where p: "cmds st1 = cmds st @ probes"
    "set probes \<subseteq> set probe_commands"
    "logs st1 = logs st @ ls" "list_all (\<lambda>l. startswith l ''[CMD-ERR]'') ls"
    and same: "memo st1 = memo st" "fs st1 = fs st" "skew_history st1 = skew_history st"
    unfolding only_probed_def by blast
  obtain ls' where l: "logs (snd (run_cmd e cmd t st1)) = logs st1 @ ls'"
    "list_all (\<lambda>l. startswith l ''[CMD-ERR]'') ls'"
    using run_cmd_logs by blast
  have c: "cmds (snd (run_cmd e cmd t st1)) = cmds st @ (probes @ [cmd])"
    using run_cmd_frame [of e cmd t st1] p(1) by simp
  have s: "set (probes @ [cmd]) \<subseteq> set probe_commands"
    using p(2) assms(2) by simp
  have lg: "logs (snd (run_cmd e cmd t st1)) = logs st @ (ls @ ls')"
    using l(1) p(3) by simp
  have al: "list_all (\<lambda>l. startswith l ''[CMD-ERR]'') (ls @ ls')"
    using l(2) p(4) by simp
  show ?thesis
    unfolding only_probed_def
  proof (intro conjI exI)
    show "cmds (snd (run_cmd e cmd t st1)) = cmds st @ (probes @ [cmd])" by (rule c)
    show "set (probes @ [cmd]) \<subseteq> set probe_commands" by (rule s)
    show "logs (snd (run_cmd e cmd t st1)) = logs st @ (ls @ ls')" by (rule lg)
    show "list_all (\<lambda>l. startswith l ''[CMD-ERR]'') (ls @ ls')" by (rule al)
  qed (use run_cmd_frame [of e cmd t st1] same in simp_all)
qed

lemma only_probed_windows: "only_probed st (snd (measure_skew_windows conv e st))"
proof -
  let ?s1 = "snd (measure_skew_windows_stripchart conv e st)"
  have 1: "only_probed st ?s1"
    unfolding snd_measure_stripchart by (rule only_probed_run_cmd [OF only_probed_refl]) (simp add: probe_commands_def)
  have 2: "only_probed st (snd (measure_skew_windows_status conv e ?s1))"
    unfolding snd_measure_status by (rule only_probed_run_cmd [OF 1]) (simp add: probe_commands_def)
  show ?thesis
    using 1 2 by (cases "measure_skew_windows_stripchart conv e st")
      (auto simp: measure_skew_windows_def split: option.splits)
qed

lemma only_probed_chrony: "only_probed st (snd (measure_skew_chrony conv e st))"
  unfolding snd_measure_chrony by (rule only_probed_run_cmd [OF only_probed_refl]) (simp add: probe_commands_def)

lemma only_probed_ntpd: "only_probed st (snd (measure_skew_ntpd conv e st))"
  unfolding snd_measure_ntpd by (rule only_probed_run_cmd [OF only_probed_refl]) (simp add: probe_commands_def)

text \<open>
  C3, as stated, on the cycle of \<^verbatim>\<open>driftMonitor.py\<close>: the status command prints nothing, so
  nothing can be parsed; \<^verbatim>\<open>measure_skew_windows\<close> returns 0, the cycle takes the decision
  for a small skew, runs \<^verbatim>\<open>w32tm /resync /nowait\<close>, and saves the memo.
\<close>

theorem monitor_probe_failure_counterexample:
  "monitor_scan conv_none 0 (splitlines (strip [])) = 0 \<and>
   (case drift_correction_windows_monitor cfg_win conv_none env_silent (st_empty cfg_win) of
      Returned st' \<Rightarrow>
        cmds st' = [''w32tm /query /status'', ''w32tm /resync /nowait''] \<and>
        files (fs st') (MEMO_FILE cfg_win) = Some (json_dumps [(''last_skew'', PyInt 0)]) \<and>
        memo st' = [(''last_skew'', PyInt 0)] \<and>
        skew_history st' = [0]
    | Raised x \<Rightarrow> False
    | Hung \<Rightarrow> False)"
  by code_simp

text \<open>
  C3, amended. For every cycle of \<^verbatim>\<open>driftMonitorDual.py\<close> in which the probe fails (on
  Windows \<^verbatim>\<open>measure_skew_windows\<close> returns \<^verbatim>\<open>None\<close>; elsewhere neither \<^verbatim>\<open>chronyc\<close> nor
  \<^verbatim>\<open>ntpq\<close> is found, or the probe of the tool found returns \<^verbatim>\<open>None\<close>), the cycle returns
  \<^verbatim>\<open>None\<close>; the memo, the memo file and the history are as before, the only commands run
  are probe commands, the last line logged is one of the three probe warnings, and the
  loop goes on with the next cycle from that state.
\<close>

theorem probe_failure_skips_cycle:
  assumes "if IS_WINDOWS cfg then fst (measure_skew_windows conv e st) = Inr None
           else if which e ''chronyc'' then fst (measure_skew_chrony conv e st) = None
           else if which e ''ntpq'' then fst (measure_skew_ntpd conv e st) = None
           else True"
  shows "\<exists>st1 warn. cycle cfg conv e st = (Inr None, log_line warn st1) \<and>
           only_probed st st1 \<and> warn \<in> set probe_warnings \<and>
           cycles cfg conv (e # es) st = cycles cfg conv es (log_line warn st1)"
proof -
  have "\<exists>st1 warn. cycle cfg conv e st = (Inr None, log_line warn st1) \<and>
           only_probed st st1 \<and> warn \<in> set probe_warnings"
  proof (cases "IS_WINDOWS cfg")
    case True
    with assms have "fst (measure_skew_windows conv e st) = Inr None" by simp
    then have m: "measure_skew_windows conv e st = (Inr None, snd (measure_skew_windows conv e st))"
      by (simp add: prod_eq_iff)
    have "cycle cfg conv e st
          = (Inr None, log_line ''[WARN] Could not measure skew on Windows''
                         (snd (measure_skew_windows conv e st)))"
      using True by (subst cycle_def, subst drift_check_and_correct_windows_def, subst m) simp
    then show ?thesis
      using only_probed_windows [of st conv e] by (auto simp: probe_warnings_def)
  next
    case unix: False
    show ?thesis
    proof (cases "which e ''chronyc''")
      case True
      with assms unix have "fst (measure_skew_chrony conv e st) = None" by simp
      then have m: "measure_skew_chrony conv e st = (None, snd (measure_skew_chrony conv e st))"
        by (simp add: prod_eq_iff)
      have "cycle cfg conv e st
            = (Inr None, log_line ''[WARN] Could not parse skew from Unix tool output''
                           (snd (measure_skew_chrony conv e st)))"
        using unix True
        by (subst cycle_def, subst drift_check_and_correct_unix_def, subst m) (simp add: Let_def)
      then show ?thesis
        using only_probed_chrony [of st conv e] by (auto simp: probe_warnings_def)
    next
      case nochrony: False
      show ?thesis
      proof (cases "which e ''ntpq''")
        case True
        with assms unix nochrony have "fst (measure_skew_ntpd conv e st) = None" by simp
        then have m: "measure_skew_ntpd conv e st = (None, snd (measure_skew_ntpd conv e st))"
          by (simp add: prod_eq_iff)
        have "cycle cfg conv e st
              = (Inr None, log_line ''[WARN] Could not parse skew from Unix tool output''
                             (snd (measure_skew_ntpd conv e st)))"
          using unix nochrony True
          by (subst cycle_def, subst drift_check_and_correct_unix_def, subst m) (simp add: Let_def)
        then show ?thesis
          using only_probed_ntpd [of st conv e] by (auto simp: probe_warnings_def)
      next
        case False
        have "cycle cfg conv e st
              = (Inr None, log_line ''[WARN] No chronyc or ntpq available to measure skew'' st)"
          using unix nochrony False
          by (simp add: cycle_def drift_check_and_correct_unix_def)
        then show ?thesis
          using only_probed_refl [of st] by (auto simp: probe_warnings_def)
      qed
    qed
  qed
  then obtain st1 warn where c: "cycle cfg conv e st = (Inr None, log_line warn st1)"
    and rest: "only_probed st st1" "warn \<in> set probe_warnings"
    by blast
  have "cycles cfg conv (e # es) st = cycles cfg conv es (log_line warn st1)"
    by (simp add: c)
  with c rest show ?thesis by blast
qed

theorem probe_failure_skips_cycle_witness:
  "\<not> IS_WINDOWS cfg_unix \<and> \<not> which env_silent ''chronyc'' \<and> \<not> which env_silent ''ntpq'' \<and>
   (\<exists>st1 warn. cycle cfg_unix conv_none env_silent (st_empty cfg_unix) = (Inr None, log_line warn st1) \<and>
      only_probed (st_empty cfg_unix) st1 \<and> warn \<in> set probe_warnings \<and>
      cycles cfg_unix conv_none [env_silent, env_silent] (st_empty cfg_unix)
        = cycles cfg_unix conv_none [env_silent] (log_line warn st1)) \<and>
   IS_WINDOWS cfg_win \<and> fst (measure_skew_windows conv_none env_silent (st_empty cfg_win)) = Inr None \<and>
   (\<exists>st1 warn. cycle cfg_win conv_none env_silent (st_empty cfg_win) = (Inr None, log_line warn st1) \<and>
      only_probed (st_empty cfg_win) st1 \<and> warn \<in> set probe_warnings)"
proof -
  have w: "fst (measure_skew_windows conv_none env_silent (st_empty cfg_win)) = Inr None"
    by code_simp
  have u: "\<not> IS_WINDOWS cfg_unix \<and> \<not> which env_silent ''chronyc'' \<and> \<not> which env_silent ''ntpq''"
    by (simp add: cfg_unix_def env_silent_def)
  have iw: "IS_WINDOWS cfg_win"
    by (simp add: cfg_win_def)
  have 1: "\<exists>st1 warn. cycle cfg_unix conv_none env_silent (st_empty cfg_unix) = (Inr None, log_line warn st1) \<and>
      only_probed (st_empty cfg_unix) st1 \<and> warn \<in> set probe_warnings \<and>
      cycles cfg_unix conv_none [env_silent, env_silent] (st_empty cfg_unix)
        = cycles cfg_unix conv_none [env_silent] (log_line warn st1)"
    by (rule probe_failure_skips_cycle) (use u in simp)
  have 2: "\<exists>st1 warn. cycle cfg_win conv_none env_silent (st_empty cfg_win) = (Inr None, log_line warn st1) \<and>
      only_probed (st_empty cfg_win) st1 \<and> warn \<in> set probe_warnings \<and>
      cycles cfg_win conv_none [env_silent] (st_empty cfg_win)
        = cycles cfg_win conv_none [] (log_line warn st1)"
    by (rule probe_failure_skips_cycle) (use iw w in simp)
  from 2 have 3: "\<exists>st1 warn. cycle cfg_win conv_none env_silent (st_empty cfg_win) = (Inr None, log_line warn st1) \<and>
      only_probed (st_empty cfg_win) st1 \<and> warn \<in> set probe_warnings"
    by blast
  show ?thesis
    using u iw w 1 3 by (intro conjI) simp_all
qed

section \<open>Properties of the mode selection\<close>




end
